theory Spec2Isabelle
  imports Complex_Main "HOL-Library.Sublist"
begin

section \<open>Python floats and the built-ins the scripts use\<close>

text \<open>
  The scripts compute with Python floats and start their bounds at \<open>float('inf')\<close> and
  \<open>float('-inf')\<close>. A float is modelled as one of the two infinities, NaN, or a finite
  value; finite values are real numbers (rounding and overflow of finite arithmetic are
  not modelled). Comparisons with NaN are false, as in Python.
\<close>

datatype pyfloat = NaN | NInf | Fin real | PInf

datatype exn =
    ZeroDivisionError
  | ValueError
  | IndexError
  | RuntimeError string
  | TypeError string
  | OSError string

fun flt :: "pyfloat \<Rightarrow> pyfloat \<Rightarrow> bool" where
  "flt NaN _ = False"
| "flt _ NaN = False"
| "flt PInf _ = False"
| "flt _ NInf = False"
| "flt NInf _ = True"
| "flt _ PInf = True"
| "flt (Fin a) (Fin b) = (a < b)"

fun fle :: "pyfloat \<Rightarrow> pyfloat \<Rightarrow> bool" where
  "fle NaN _ = False"
| "fle _ NaN = False"
| "fle NInf _ = True"
| "fle _ PInf = True"
| "fle PInf _ = False"
| "fle _ NInf = False"
| "fle (Fin a) (Fin b) = (a \<le> b)"

definition fgt :: "pyfloat \<Rightarrow> pyfloat \<Rightarrow> bool" where
  "fgt a b = flt b a"

text \<open>
  \<open>min(a, b)\<close> keeps \<open>a\<close> unless \<open>b < a\<close>; \<open>max(a, b)\<close> keeps \<open>a\<close> unless
  \<open>b > a\<close>.
\<close>

definition py_min :: "pyfloat \<Rightarrow> pyfloat \<Rightarrow> pyfloat" where
  "py_min a b = (if flt b a then b else a)"

definition py_max :: "pyfloat \<Rightarrow> pyfloat \<Rightarrow> pyfloat" where
  "py_max a b = (if fgt b a then b else a)"

text \<open>\<open>max(iterable)\<close>: raises ValueError on an empty iterable.\<close>

definition py_max_seq :: "pyfloat list \<Rightarrow> exn + pyfloat" where
  "py_max_seq xs = (case xs of [] \<Rightarrow> Inl ValueError | x # rest \<Rightarrow> Inr (foldl py_max x rest))"

fun fneg :: "pyfloat \<Rightarrow> pyfloat" where
  "fneg NaN = NaN"
| "fneg NInf = PInf"
| "fneg PInf = NInf"
| "fneg (Fin a) = Fin (- a)"

fun fadd :: "pyfloat \<Rightarrow> pyfloat \<Rightarrow> pyfloat" where
  "fadd NaN _ = NaN"
| "fadd _ NaN = NaN"
| "fadd (Fin a) (Fin b) = Fin (a + b)"
| "fadd PInf NInf = NaN"
| "fadd NInf PInf = NaN"
| "fadd PInf _ = PInf"
| "fadd NInf _ = NInf"
| "fadd (Fin _) b = b"

definition fsub :: "pyfloat \<Rightarrow> pyfloat \<Rightarrow> pyfloat" where
  "fsub a b = fadd a (fneg b)"

text \<open>The sign of an infinite product or quotient; a zero factor gives NaN.\<close>

definition signed_inf :: "bool \<Rightarrow> pyfloat" where
  "signed_inf positive = (if positive then PInf else NInf)"

fun fmul :: "pyfloat \<Rightarrow> pyfloat \<Rightarrow> pyfloat" where
  "fmul NaN _ = NaN"
| "fmul _ NaN = NaN"
| "fmul (Fin a) (Fin b) = Fin (a * b)"
| "fmul (Fin a) PInf = (if a = 0 then NaN else signed_inf (0 < a))"
| "fmul (Fin a) NInf = (if a = 0 then NaN else signed_inf (a < 0))"
| "fmul PInf (Fin b) = (if b = 0 then NaN else signed_inf (0 < b))"
| "fmul NInf (Fin b) = (if b = 0 then NaN else signed_inf (b < 0))"
| "fmul PInf PInf = PInf"
| "fmul NInf NInf = PInf"
| "fmul PInf NInf = NInf"
| "fmul NInf PInf = NInf"

text \<open>
  \<open>a / b\<close> on floats raises ZeroDivisionError when \<open>b\<close> is zero, whatever \<open>a\<close> is.
\<close>

fun fquot :: "pyfloat \<Rightarrow> pyfloat \<Rightarrow> pyfloat" where
  "fquot NaN _ = NaN"
| "fquot _ NaN = NaN"
| "fquot (Fin a) (Fin b) = Fin (a / b)"
| "fquot (Fin _) _ = Fin 0"
| "fquot PInf (Fin b) = signed_inf (0 < b)"
| "fquot NInf (Fin b) = signed_inf (b < 0)"
| "fquot _ _ = NaN"

definition py_truediv :: "pyfloat \<Rightarrow> pyfloat \<Rightarrow> exn + pyfloat" where
  "py_truediv a b = (if b = Fin 0 then Inl ZeroDivisionError else Inr (fquot a b))"

section \<open>Vectors and the bounds scan\<close>

text \<open>
  A \<open>mathutils.Vector\<close> of a vertex or of a bounding-box corner is a point of space:
  three real coordinates, read by index 0, 1, 2. The bounds \<open>min_co\<close> and \<open>max_co\<close>
  are Python lists of three floats, updated by index.
\<close>

type_synonym vector = "real \<times> real \<times> real"

fun vidx :: "vector \<Rightarrow> nat \<Rightarrow> real" where
  "vidx (x, y, z) i = (if i = 0 then x else if i = 1 then y else z)"

type_synonym bounds = "pyfloat list \<times> pyfloat list"

text \<open>\<open>[float('inf')] * 3\<close> and \<open>[float('-inf')] * 3\<close>.\<close>

definition initial_bounds :: bounds where
  "initial_bounds = (replicate 3 PInf, replicate 3 NInf)"

text \<open>
  The innermost loop of both renderers, for one world-space point:
  \<^verbatim>\<open>
  for i in range(3):
      min_co[i] = min(min_co[i], world_co[i])
      max_co[i] = max(max_co[i], world_co[i])
  \<close>
\<close>

definition extend_axis :: "vector \<Rightarrow> bounds \<Rightarrow> nat \<Rightarrow> bounds" where
  "extend_axis world_co b i =
     (case b of (min_co, max_co) \<Rightarrow>
        (min_co[i := py_min (min_co ! i) (Fin (vidx world_co i))],
         max_co[i := py_max (max_co ! i) (Fin (vidx world_co i))]))"

definition extend_bounds :: "bounds \<Rightarrow> vector \<Rightarrow> bounds" where
  "extend_bounds b world_co = foldl (extend_axis world_co) b [0..<3]"

text \<open>The scan of a sequence of world-space points, from given bounds.\<close>

definition scan_points :: "bounds \<Rightarrow> vector list \<Rightarrow> bounds" where
  "scan_points b ps = foldl extend_bounds b ps"

section \<open>Objects of the host scene\<close>

text \<open>
  The part of a scene object that the scripts read or write. \<open>matrix_world\<close> is the
  4x4 world matrix; applied to a 3-vector it yields the transformed point (the vector is
  extended by 1, the fourth row is not used). \<open>eval_vertices\<close> is the vertex list of the
  evaluated (deformed) mesh that the dependency graph yields for the object, \<open>None\<close>
  when the evaluated object has no mesh data. \<open>action\<close> is \<open>animation_data.action\<close>
  when both exist. Data blocks of lights, cameras and materials are not modelled.
\<close>

datatype otype = MESH | ARMATURE | EMPTY | LIGHT | CAMERA

type_synonym fvec = "pyfloat \<times> pyfloat \<times> pyfloat"

type_synonym row = "real \<times> real \<times> real \<times> real"

type_synonym matrix = "row \<times> row \<times> row \<times> row"

datatype pose_rotation = Rest | QuaternionOfEuler real real real

record action =
  action_name :: string
  frame_start :: real

record nla_track =
  track_name :: string
  strips :: "(string \<times> int \<times> action) list"

record obj =
  oname :: string
  otype :: otype
  parent :: "string option"
  select :: bool
  location :: fvec
  rotation_euler :: fvec
  scale :: fvec
  matrix_world :: matrix
  bound_box :: "vector list"
  eval_vertices :: "vector list option"
  pose_bones :: "(string \<times> pose_rotation) list"
  has_animation_data :: bool
  action :: "action option"
  nla_tracks :: "nla_track list"

fun row_apply :: "row \<Rightarrow> vector \<Rightarrow> real" where
  "row_apply (a, b, c, d) (x, y, z) = a * x + b * y + c * z + d"

fun matmul_vec :: "matrix \<Rightarrow> vector \<Rightarrow> vector" where
  "matmul_vec (r0, r1, r2, r3) v = (row_apply r0 v, row_apply r1 v, row_apply r2 v)"

definition identity_matrix :: matrix where
  "identity_matrix = ((1, 0, 0, 0), (0, 1, 0, 0), (0, 0, 1, 0), (0, 0, 0, 1))"

definition radians :: "real \<Rightarrow> real" where
  "radians d = d * pi / 180"

definition fvec_of :: "vector \<Rightarrow> fvec" where
  "fvec_of v = (case v of (x, y, z) \<Rightarrow> (Fin x, Fin y, Fin z))"

text \<open>\<open>bpy.data.objects.new(name, data)\<close>: a fresh object at the origin, not selected.\<close>

definition new_object :: "string \<Rightarrow> otype \<Rightarrow> obj" where
  "new_object name ty =
     \<lparr>oname = name, otype = ty, parent = None, select = False,
      location = fvec_of (0, 0, 0), rotation_euler = fvec_of (0, 0, 0),
      scale = fvec_of (1, 1, 1), matrix_world = identity_matrix, bound_box = [],
      eval_vertices = None, pose_bones = [], has_animation_data = False, action = None,
      nla_tracks = []\<rparr>"

fun sub_x :: "fvec \<Rightarrow> pyfloat \<Rightarrow> fvec" where
  "sub_x (x, y, z) c = (fsub x c, y, z)"

fun sub_y :: "fvec \<Rightarrow> pyfloat \<Rightarrow> fvec" where
  "sub_y (x, y, z) c = (x, fsub y c, z)"

fun sub_z :: "fvec \<Rightarrow> pyfloat \<Rightarrow> fvec" where
  "sub_z (x, y, z) c = (x, y, fsub z c)"

fun vscale :: "fvec \<Rightarrow> pyfloat \<Rightarrow> fvec" where
  "vscale (x, y, z) s = (fmul x s, fmul y s, fmul z s)"

section \<open>Files, import and paths\<close>

text \<open>
  The file system and the host's importers are the environment. A path either does not
  exist, or importing it raises, or it creates objects (with their selection flags as
  the importer leaves them). Importing a path that does not exist raises as well. The
  text of the exception is the host's, in both cases: the environment gives it with the
  path.
\<close>

datatype import_result = Absent string | Raises string | Creates "obj list"

type_synonym files = "string \<Rightarrow> import_result"

definition path_exists :: "files \<Rightarrow> string \<Rightarrow> bool" where
  "path_exists fs p = (case fs p of Absent m \<Rightarrow> False | _ \<Rightarrow> True)"

definition import_scene :: "files \<Rightarrow> string \<Rightarrow> exn + obj list" where
  "import_scene fs p =
     (case fs p of
        Absent m \<Rightarrow> Inl (RuntimeError m)
      | Raises m \<Rightarrow> Inl (RuntimeError m)
      | Creates objs \<Rightarrow> Inr objs)"

text \<open>\<open>os.path.join\<close> of two components (POSIX).\<close>

definition path_join :: "string \<Rightarrow> string \<Rightarrow> string" where
  "path_join a b =
     (if b \<noteq> [] \<and> hd b = CHR ''/'' then b
      else if a = [] \<or> last a = CHR ''/'' then a @ b
      else a @ ''/'' @ b)"

fun str_exn :: "exn \<Rightarrow> string" where
  "str_exn ZeroDivisionError = ''float division by zero''"
| "str_exn ValueError = ''max() arg is an empty sequence''"
| "str_exn IndexError = ''list index out of range''"
| "str_exn (RuntimeError m) = m"
| "str_exn (TypeError m) = m"
| "str_exn (OSError m) = m"

text \<open>A list comprehension whose elements may raise: the first exception ends it.\<close>

fun collect :: "('e + 'a) list \<Rightarrow> 'e + 'a list" where
  "collect [] = Inr []"
| "collect (r # rs) =
     (case r of
        Inl e \<Rightarrow> Inl e
      | Inr v \<Rightarrow> (case collect rs of Inl e \<Rightarrow> Inl e | Inr vs \<Rightarrow> Inr (v # vs)))"

section \<open>The state of a render run\<close>

text \<open>
  \<open>objects\<close> are the objects the script created itself (lights, camera); \<open>armature\<close>
  and \<open>meshes\<close> are the imported objects the script holds references to, in their
  current state. \<open>render\<close> holds the render settings of the scene and, with them, the
  device type of the Cycles preferences. \<open>written\<close> lists the image files written by
  the renderer, in order; \<open>log\<close> keeps the ERROR lines printed (progress lines are
  not kept).
\<close>

record render_settings =
  engine :: string
  cycles_samples :: nat
  use_denoising :: bool
  resolution_x :: nat
  resolution_y :: nat
  resolution_percentage :: nat
  film_transparent :: bool
  file_format :: string
  color_mode :: string
  compression :: nat
  compute_device_type :: string
  cycles_device :: string

record scene =
  objects :: "obj list"
  armature :: "obj option"
  meshes :: "obj list"
  render :: render_settings
  render_filepath :: string
  written :: "string list"
  log :: "string list"

text \<open>The settings of a scene of the host before any script has run.\<close>

definition factory_settings :: render_settings where
  "factory_settings =
     \<lparr>engine = ''BLENDER_EEVEE'', cycles_samples = 4096, use_denoising = False,
      resolution_x = 1920, resolution_y = 1080, resolution_percentage = 100,
      film_transparent = False, file_format = ''PNG'', color_mode = ''RGBA'',
      compression = 15, compute_device_type = ''NONE'', cycles_device = ''CPU''\<rparr>"

definition empty_scene :: scene where
  "empty_scene = \<lparr>objects = [], armature = None, meshes = [], render = factory_settings,
     render_filepath = [], written = [], log = []\<rparr>"


text \<open>\<open>select_all\<close> and \<open>delete\<close>: no object is left.\<close>

definition clear_scene :: "scene \<Rightarrow> scene" where
  "clear_scene st = st\<lparr>objects := [], armature := None, meshes := []\<rparr>"

definition print_line :: "string \<Rightarrow> scene \<Rightarrow> scene" where
  "print_line msg st = st\<lparr>log := log st @ [msg]\<rparr>"

text \<open>\<open>bpy.ops.render.render(write_still=True)\<close> writes the image at \<open>render.filepath\<close>.\<close>

definition render_still :: "scene \<Rightarrow> scene" where
  "render_still st = st\<lparr>written := written st @ [render_filepath st]\<rparr>"

definition placed :: "string \<Rightarrow> otype \<Rightarrow> fvec \<Rightarrow> fvec \<Rightarrow> obj" where
  "placed name ty loc rot = (new_object name ty)\<lparr>location := loc, rotation_euler := rot\<rparr>"

definition link_object :: "obj \<Rightarrow> scene \<Rightarrow> scene" where
  "link_object ob st = st\<lparr>objects := objects st @ [ob]\<rparr>"

section \<open>render-animal-portraits.py\<close>

text \<open>
  The directories are fixed by the location of the script; the project root is written
  \<open>/project\<close> here.
\<close>

definition MODELS_DIR :: string where
  "MODELS_DIR = ''/project/public/assets/models''"

definition OUTPUT_DIR :: string where
  "OUTPUT_DIR = ''/project/public/assets/sprites''"


definition setup_camera :: "scene \<Rightarrow> scene" where
  "setup_camera st =
     link_object (placed ''PortraitCamera'' CAMERA (fvec_of (0, -5, 0.5))
                    (fvec_of (radians 90, 0, 0))) st"

definition setup_lighting :: "scene \<Rightarrow> scene" where
  "setup_lighting st =
     link_object (placed ''RimLight'' LIGHT (fvec_of (0, 3, 2))
                    (fvec_of (radians 120, 0, radians 180)))
       (link_object (placed ''FillLight'' LIGHT (fvec_of (-2, -2, 1))
                       (fvec_of (radians 70, 0, radians (-20))))
          (link_object (placed ''KeyLight'' LIGHT (fvec_of (2, -3, 2))
                          (fvec_of (radians 60, 0, radians 30))) st))"

definition load_glb :: "files \<Rightarrow> string \<Rightarrow> exn + obj list" where
  "load_glb fs filepath =
     (case import_scene fs filepath of
        Inl e \<Rightarrow> Inl e
      | Inr objs \<Rightarrow> Inr (filter (\<lambda>ob. otype ob = MESH) (filter select objs)))"

text \<open>
  Lines 152 to 160 of \<open>center_and_scale_model\<close>: the scan of the bounding-box corners
  of every object, each corner taken to world space.
\<close>

definition bound_box_bounds :: "obj list \<Rightarrow> bounds" where
  "bound_box_bounds objs =
     foldl (\<lambda>b ob. foldl (\<lambda>b vertex. extend_bounds b (matmul_vec (matrix_world ob) vertex))
                      b (bound_box ob))
       initial_bounds objs"

text \<open>
  Lines 163, 164 and 168: \<open>center\<close>, \<open>size\<close> and \<open>scale_factor\<close>.
\<close>

definition center_of :: "bounds \<Rightarrow> exn + pyfloat list" where
  "center_of b =
     (case b of (min_coords, max_coords) \<Rightarrow>
        collect (map (\<lambda>i. py_truediv (fadd (min_coords ! i) (max_coords ! i)) (Fin 2)) [0..<3]))"

definition size_of :: "bounds \<Rightarrow> exn + pyfloat" where
  "size_of b =
     (case b of (min_coords, max_coords) \<Rightarrow>
        py_max_seq (map (\<lambda>i. fsub (max_coords ! i) (min_coords ! i)) [0..<3]))"

definition scale_factor_of :: "pyfloat \<Rightarrow> pyfloat \<Rightarrow> exn + pyfloat" where
  "scale_factor_of target model_size =
     (if fgt model_size (Fin 0) then py_truediv target model_size else Inr (Fin 1))"

definition target_size :: pyfloat where
  "target_size = Fin 1.8"

definition center_and_scale_model :: "obj list \<Rightarrow> exn + obj list" where
  "center_and_scale_model objs =
     (if objs = [] then Inr objs
      else
        (let b = bound_box_bounds objs in
         case center_of b of
           Inl e \<Rightarrow> Inl e
         | Inr center \<Rightarrow>
             (case size_of b of
                Inl e \<Rightarrow> Inl e
              | Inr model_size \<Rightarrow>
                  (case scale_factor_of target_size model_size of
                     Inl e \<Rightarrow> Inl e
                   | Inr scale_factor \<Rightarrow>
                       Inr (map (\<lambda>ob. ob\<lparr>location :=
                                           sub_z (sub_y (sub_x (location ob) (center ! 0))
                                                    (center ! 1)) (center ! 2),
                                         scale := vscale (scale ob) scale_factor\<rparr>)
                              objs)))))"

definition render_portrait :: "files \<Rightarrow> string \<Rightarrow> string \<Rightarrow> scene \<Rightarrow> exn + (bool \<times> scene)" where
  "render_portrait fs model_name output_filename st0 =
     (let st = setup_camera (setup_lighting (clear_scene st0));
          model_path = path_join MODELS_DIR (model_name @ ''.glb'')
      in if \<not> path_exists fs model_path
         then Inr (False, print_line (''ERROR: Model not found: '' @ model_path) st)
         else
           (case load_glb fs model_path of
              Inl e \<Rightarrow> Inl e
            | Inr objs \<Rightarrow>
                if objs = []
                then Inr (False,
                       print_line (''ERROR: No mesh objects imported from '' @ model_path) st)
                else
                  (case center_and_scale_model objs of
                     Inl e \<Rightarrow> Inl e
                   | Inr objs' \<Rightarrow>
                       Inr (True,
                         render_still
                           (st\<lparr>meshes := objs',
                               render_filepath := path_join OUTPUT_DIR output_filename\<rparr>)))))"








section \<open>render-farmer-portraits.py\<close>

record farmer_config =
  farmer_id :: string
  glb :: string
  output_file :: string
  label :: string

definition FARMER_MODELS_DIR :: string where
  "FARMER_MODELS_DIR = ''/project/public/assets/models/farmers''"

definition FARMERS :: "farmer_config list" where
  "FARMERS =
     [\<lparr>farmer_id = ''john'', glb = path_join FARMER_MODELS_DIR ''john.glb'',
       output_file = ''farmer_john_portrait.png'', label = ''Farmer John''\<rparr>,
      \<lparr>farmer_id = ''mary'', glb = path_join FARMER_MODELS_DIR ''mary.glb'',
       output_file = ''farmer_mary_portrait.png'', label = ''Farmer Mary''\<rparr>]"

definition farmer_setup_camera :: "pyfloat \<Rightarrow> pyfloat \<Rightarrow> scene \<Rightarrow> scene" where
  "farmer_setup_camera center_y center_z st =
     link_object (placed ''PortraitCam'' CAMERA (Fin 0, Fin (-4), center_z)
                    (fvec_of (radians 90, 0, 0))) st"

definition farmer_setup_lighting :: "scene \<Rightarrow> scene" where
  "farmer_setup_lighting st =
     link_object (placed ''Rim'' LIGHT (fvec_of (0, 3, 2.5))
                    (fvec_of (radians 120, 0, radians 180)))
       (link_object (placed ''Fill'' LIGHT (fvec_of (-1.5, -2.5, 1.5))
                       (fvec_of (radians 65, 0, radians (-20))))
          (link_object (placed ''Key'' LIGHT (fvec_of (1.5, -3, 2.5))
                          (fvec_of (radians 55, 0, radians 25))) st))"

text \<open>\<open>armature.children\<close>: the objects whose parent is the armature.\<close>

definition children :: "obj list \<Rightarrow> obj \<Rightarrow> obj list" where
  "children objs a = filter (\<lambda>ob. parent ob = Some (oname a)) objs"

definition load_farmer_glb :: "files \<Rightarrow> string \<Rightarrow> exn + (obj option \<times> obj list)" where
  "load_farmer_glb fs filepath =
     (case import_scene fs filepath of
        Inl e \<Rightarrow> Inl e
      | Inr objs \<Rightarrow>
          (let found =
                 foldl (\<lambda>(a, ms) ob.
                          if otype ob = ARMATURE then (Some ob, ms)
                          else if otype ob = MESH then (a, ms @ [ob])
                          else (a, ms))
                   (None, []) (filter select objs)
           in case found of
                (None, ms) \<Rightarrow> Inr (None, ms)
              | (Some a, ms) \<Rightarrow>
                  Inr (Some a,
                       foldl (\<lambda>ms child.
                                if otype child = MESH \<and> child \<notin> set ms then ms @ [child]
                                else ms)
                         ms (children objs a))))"

definition get_model_bounds :: "obj list \<Rightarrow> bounds" where
  "get_model_bounds objs =
     foldl (\<lambda>b ob.
              case (if otype ob = MESH then eval_vertices ob else None) of
                Some verts \<Rightarrow>
                  foldl (\<lambda>b vert. extend_bounds b (matmul_vec (matrix_world ob) vert)) b verts
              | None \<Rightarrow>
                  foldl (\<lambda>b corner. extend_bounds b (matmul_vec (matrix_world ob) corner))
                    b (bound_box ob))
       initial_bounds objs"

definition arm_rotations :: "(string \<times> pose_rotation) list" where
  "arm_rotations =
     [(''mixamorig:LeftArm'', QuaternionOfEuler 0 0 (radians 68)),
      (''mixamorig:RightArm'', QuaternionOfEuler 0 0 (radians (-68))),
      (''mixamorig:LeftShoulder'', QuaternionOfEuler 0 0 (radians 8)),
      (''mixamorig:RightShoulder'', QuaternionOfEuler 0 0 (radians (-8))),
      (''mixamorig:LeftForeArm'', QuaternionOfEuler 0 (radians (-25)) 0),
      (''mixamorig:RightForeArm'', QuaternionOfEuler 0 (radians 25) 0)]"

definition pose_idle :: "obj option \<Rightarrow> obj option" where
  "pose_idle arm =
     (case arm of
        None \<Rightarrow> None
      | Some a \<Rightarrow>
          if otype a \<noteq> ARMATURE then Some a
          else Some (a\<lparr>pose_bones :=
                         foldl (\<lambda>bones (bone_name, rot).
                                  map (\<lambda>(n, r). if n = bone_name then (n, rot) else (n, r)) bones)
                           (pose_bones a) arm_rotations\<rparr>))"

definition render_farmer :: "files \<Rightarrow> farmer_config \<Rightarrow> scene \<Rightarrow> exn + (bool \<times> scene)" where
  "render_farmer fs farmer st0 =
     (if \<not> path_exists fs (glb farmer)
      then Inr (False, print_line (''  ERROR: GLB not found: '' @ glb farmer) st0)
      else
        (let st = farmer_setup_lighting (clear_scene st0) in
         case load_farmer_glb fs (glb farmer) of
           Inl e \<Rightarrow> Inl e
         | Inr (arm0, ms) \<Rightarrow>
             if ms = []
             then Inr (False,
                    print_line (''  ERROR: No mesh objects imported from '' @ glb farmer) st)
             else
               (let arm = pose_idle arm0;
                    (min_co, max_co) = get_model_bounds ms;
                    height = fsub (max_co ! 2) (min_co ! 2)
                in case py_truediv (fadd (min_co ! 0) (max_co ! 0)) (Fin 2) of
                     Inl e \<Rightarrow> Inl e
                   | Inr center_x \<Rightarrow>
                       (case py_truediv (fadd (min_co ! 2) (max_co ! 2)) (Fin 2) of
                          Inl e \<Rightarrow> Inl e
                        | Inr center_z \<Rightarrow>
                            (let portrait_center_z = fadd (min_co ! 2) (fmul height (Fin 0.75));
                                 st = farmer_setup_camera (Fin 0) portrait_center_z st;
                                 st = (case arm of
                                         Some a \<Rightarrow>
                                           st\<lparr>armature :=
                                                 Some (a\<lparr>location := sub_x (location a) center_x\<rparr>),
                                               meshes := ms\<rparr>
                                       | None \<Rightarrow>
                                           st\<lparr>armature := None,
                                               meshes :=
                                                 map (\<lambda>m. m\<lparr>location := sub_x (location m) center_x\<rparr>)
                                                   ms\<rparr>);
                                 st = st\<lparr>render_filepath := path_join OUTPUT_DIR (output_file farmer)\<rparr>
                             in Inr (True, render_still st))))))"

section \<open>bpy/export_farmer_models.py\<close>

text \<open>
  The state of an export run: the objects of \<open>bpy.data.objects\<close> in the host's
  order, the calls of the glTF exporter made so far (the file written and the selected
  objects it exports, with their NLA tracks), and the ERROR lines printed. The local
  variables \<open>armature\<close> and \<open>mesh_obj\<close> hold the current state of the two objects
  of the character. The rewiring of materials and the renaming of the vertex-colour
  layer touch data blocks that are not modelled.
\<close>

record export_call =
  export_path :: string
  export_objects :: "obj list"

record blend =
  data_objects :: "obj list"
  exported :: "export_call list"
  errors :: "string list"

definition empty_blend :: blend where
  "empty_blend = \<lparr>data_objects = [], exported = [], errors = []\<rparr>"

record char_config =
  fbx :: string
  mesh_name :: string
  animations :: "(string \<times> string) list"

definition ASSETS_ROOT :: string where
  "ASSETS_ROOT = ''/Users/jbogaty/assets/Farmers_Family''"

definition PLAYERS_DIR :: string where
  "PLAYERS_DIR =
     ''/Users/jbogaty/src/arcade-cabinet/infinite-headaches/public/assets/models/players''"

definition CHARACTERS :: "(string \<times> char_config) list" where
  "CHARACTERS =
     [(''john'',
       \<lparr>fbx = path_join ASSETS_ROOT ''George_Meshes/Farmer_George.fbx'',
        mesh_name = ''Farmer_George'',
        animations =
          [(''idle'', path_join ASSETS_ROOT ''George_Meshes/DemoAnimationsFromMixamo/Idle.fbx''),
           (''walk'', path_join ASSETS_ROOT ''George_Meshes/DemoAnimationsFromMixamo/Walk.fbx'')]\<rparr>),
      (''mary'',
       \<lparr>fbx = path_join ASSETS_ROOT ''Martha_Meshes/Farmer_Martha.fbx'',
        mesh_name = ''Farmer_Martha'',
        animations =
          [(''idle'', path_join ASSETS_ROOT ''Martha_Meshes/DemoAnimationsFromMixamo/Idle.fbx''),
           (''walk'', path_join ASSETS_ROOT ''Martha_Meshes/DemoAnimationsFromMixamo/Walk.fbx'')]\<rparr>)]"

text \<open>\<open>sub in name\<close> on strings.\<close>

fun is_substring :: "string \<Rightarrow> string \<Rightarrow> bool" where
  "is_substring sub [] = (sub = [])"
| "is_substring sub (c # cs) = (prefix sub (c # cs) \<or> is_substring sub cs)"

text \<open>\<open>int(x)\<close> on a float truncates towards zero.\<close>

definition py_int :: "real \<Rightarrow> int" where
  "py_int x = (if 0 \<le> x then \<lfloor>x\<rfloor> else \<lceil>x\<rceil>)"

definition log_error :: "string \<Rightarrow> blend \<Rightarrow> blend" where
  "log_error msg st = st\<lparr>errors := errors st @ [msg]\<rparr>"

text \<open>
  Lines 66 to 70: the scan of \<open>bpy.data.objects\<close>; with no \<open>break\<close>, the last
  matching object of each kind is kept.
\<close>

definition find_armature_and_mesh :: "string \<Rightarrow> obj list \<Rightarrow> obj option \<times> obj option" where
  "find_armature_and_mesh name objs =
     foldl (\<lambda>(arm, mesh_obj) ob.
              if otype ob = ARMATURE then (Some ob, mesh_obj)
              else if otype ob = MESH \<and> is_substring name (oname ob) then (arm, Some ob)
              else (arm, mesh_obj))
       (None, None) objs"

text \<open>
  \<open>transform_apply(location=True, rotation=True, scale=True)\<close> resets the transform
  of a selected object.
\<close>

definition transform_apply :: "obj \<Rightarrow> obj" where
  "transform_apply ob =
     (if select ob
      then ob\<lparr>location := fvec_of (0, 0, 0), rotation_euler := fvec_of (0, 0, 0),
              scale := fvec_of (1, 1, 1)\<rparr>
      else ob)"

text \<open>
  The body of the loop over \<open>config['animations']\<close>, lines 93 to 105: the \<open>try\<close>
  block imports the clip, takes the first selected object (the importer leaves exactly
  the imported objects selected), pushes its action on a new NLA track of the character's
  armature and removes the imported object; any exception is printed and the loop goes on.
\<close>

definition import_animation :: "files \<Rightarrow> obj \<times> blend \<Rightarrow> string \<times> string \<Rightarrow> obj \<times> blend" where
  "import_animation fs s clip =
     (case (s, clip) of ((arm, st), (anim_name, anim_path)) \<Rightarrow>
        (case import_scene fs anim_path of
           Inl e \<Rightarrow> (arm, log_error (''    - ERROR: '' @ str_exn e) st)
         | Inr objs \<Rightarrow>
             (let st1 = st\<lparr>data_objects := data_objects st @ objs\<rparr> in
              case filter select objs of
                [] \<Rightarrow> (arm, log_error (''    - ERROR: '' @ str_exn IndexError) st1)
              | imported_armature # _ \<Rightarrow>
                  (let arm' =
                         (case action imported_armature of
                            None \<Rightarrow> arm
                          | Some act \<Rightarrow>
                              arm\<lparr>nla_tracks := nla_tracks arm @
                                     [\<lparr>track_name = anim_name,
                                       strips = [(anim_name, py_int (frame_start act),
                                                  act\<lparr>action_name := anim_name\<rparr>)]\<rparr>]\<rparr>)
                   in (arm', st1\<lparr>data_objects :=
                                    remove1 imported_armature (data_objects st1)\<rparr>)))))"

definition export_gltf :: "string \<Rightarrow> obj list \<Rightarrow> blend \<Rightarrow> blend" where
  "export_gltf filepath selected st =
     st\<lparr>exported := exported st @ [\<lparr>export_path = filepath, export_objects = selected\<rparr>]\<rparr>"

definition process_character :: "files \<Rightarrow> string \<Rightarrow> char_config \<Rightarrow> blend \<Rightarrow> exn + blend" where
  "process_character fs char_key config st0 =
     (case import_scene fs (fbx config) of
        Inl e \<Rightarrow> Inl e
      | Inr objs \<Rightarrow>
          (let st = st0\<lparr>data_objects := objs\<rparr> in
           case find_armature_and_mesh (mesh_name config) (data_objects st) of
             (Some arm0, Some mesh0) \<Rightarrow>
               (let arm1 = transform_apply (arm0\<lparr>location := fvec_of (0, 0, 0)\<rparr>);
                    mesh_obj = transform_apply mesh0;
                    arm2 = arm1\<lparr>has_animation_data := True\<rparr>;
                    (arm, st) = foldl (import_animation fs) (arm2, st) (animations config);
                    output_path = path_join PLAYERS_DIR (char_key @ ''.glb'')
                in Inr (export_gltf output_path
                          [arm\<lparr>select := True\<rparr>, mesh_obj\<lparr>select := True\<rparr>] st))
           | _ \<Rightarrow> Inr (log_error ''  ERROR: Missing Armature or Mesh'' st)))"

section \<open>bpy/export_farmers_from_blend.py\<close>

record blend_config =
  blend_file :: string
  obj_name :: string
  blend_animations :: "(string \<times> string) list"

definition BLEND_CHARACTERS :: "(string \<times> blend_config) list" where
  "BLEND_CHARACTERS =
     [(''john'',
       \<lparr>blend_file = path_join ASSETS_ROOT ''Farmer_George.blend'',
        obj_name = ''Farmer_George'',
        blend_animations =
          [(''idle'', path_join ASSETS_ROOT ''George_Meshes/DemoAnimationsFromMixamo/Idle.fbx''),
           (''walk'', path_join ASSETS_ROOT ''George_Meshes/DemoAnimationsFromMixamo/Walk.fbx'')]\<rparr>),
      (''mary'',
       \<lparr>blend_file = path_join ASSETS_ROOT ''Farmer_Martha.blend'',
        obj_name = ''Farmer_Martha'',
        blend_animations =
          [(''idle'', path_join ASSETS_ROOT ''Martha_Meshes/DemoAnimationsFromMixamo/Idle.fbx''),
           (''walk'', path_join ASSETS_ROOT ''Martha_Meshes/DemoAnimationsFromMixamo/Walk.fbx'')]\<rparr>)]"

text \<open>
  The body of the loop of lines 76 to 103: the clip is imported inside \<open>try\<close>, then
  \<open>pass\<close>; an exception is printed.
\<close>

definition blend_import_animation :: "files \<Rightarrow> blend \<Rightarrow> string \<times> string \<Rightarrow> blend" where
  "blend_import_animation fs st clip =
     (case clip of (anim_name, anim_path) \<Rightarrow>
        (case import_scene fs anim_path of
           Inl e \<Rightarrow> log_error (''    - ERROR: '' @ str_exn e) st
         | Inr objs \<Rightarrow> st\<lparr>data_objects := data_objects st @ objs\<rparr>))"

definition find_rig :: "obj list \<Rightarrow> obj option" where
  "find_rig objs =
     (case find (\<lambda>ob. otype ob = ARMATURE \<and> is_substring ''Rig'' (oname ob)) objs of
        Some a \<Rightarrow> Some a
      | None \<Rightarrow> find (\<lambda>ob. otype ob = ARMATURE) objs)"

definition blend_process_character ::
  "files \<Rightarrow> string \<Rightarrow> blend_config \<Rightarrow> blend \<Rightarrow> exn + blend" where
  "blend_process_character fs char_key config st0 =
     (case import_scene fs (blend_file config) of
        Inl e \<Rightarrow> Inl e
      | Inr objs \<Rightarrow>
          (let st = st0\<lparr>data_objects := objs\<rparr> in
           case (find (\<lambda>ob. oname ob = obj_name config) objs, find_rig objs) of
             (Some mesh_obj, Some arm) \<Rightarrow>
               (let st = st\<lparr>data_objects :=
                               map (\<lambda>ob. if ob = arm then ob\<lparr>has_animation_data := True\<rparr> else ob)
                                 (filter (\<lambda>ob. \<not> (ob \<noteq> mesh_obj \<and> ob \<noteq> arm)) objs)\<rparr>
                in Inr (foldl (blend_import_animation fs) st (blend_animations config)))
           | _ \<Rightarrow>
               Inr (log_error (''  ERROR: Could not find mesh '' @ obj_name config @
                               '' or Armature'') st)))"

text \<open>
  The module body defines the map and the function and calls nothing: the characters it
  processes are none, and the state is the one it started with.
\<close>

definition export_farmers_from_blend :: "files \<Rightarrow> blend \<Rightarrow> exn + (string list \<times> blend)" where
  "export_farmers_from_blend fs st = Inr ([], st)"

section \<open>Vocabulary of the properties\<close>

text \<open>
  Bounds with finite entries, the component-wise minimum and maximum of two points, and
  the world-space points that an object contributes to each of the two scans.
\<close>

definition fins :: "vector \<Rightarrow> pyfloat list" where
  "fins v = (case v of (x, y, z) \<Rightarrow> [Fin x, Fin y, Fin z])"

fun vmin :: "vector \<Rightarrow> vector \<Rightarrow> vector" where
  "vmin (a, b, c) (x, y, z) = (min a x, min b y, min c z)"

fun vmax :: "vector \<Rightarrow> vector \<Rightarrow> vector" where
  "vmax (a, b, c) (x, y, z) = (max a x, max b y, max c z)"

definition world_corners :: "obj \<Rightarrow> vector list" where
  "world_corners ob = map (matmul_vec (matrix_world ob)) (bound_box ob)"

definition world_points :: "obj \<Rightarrow> vector list" where
  "world_points ob =
     (case (if otype ob = MESH then eval_vertices ob else None) of
        Some verts \<Rightarrow> map (matmul_vec (matrix_world ob)) verts
      | None \<Rightarrow> map (matmul_vec (matrix_world ob)) (bound_box ob))"

text \<open>A mesh object with two vertices, at its place of import.\<close>

definition sample_mesh :: obj where
  "sample_mesh =
     (new_object ''Body'' MESH)\<lparr>select := True,
        bound_box := [(1, 0, -2), (3, 5, 4)],
        eval_vertices := Some [(1, 5, -2), (3, 0, 4)]\<rparr>"

text \<open>The horizontal centre and the focus height that \<open>render_farmer\<close> computes from the bounds.\<close>

definition center_x_of :: "bounds \<Rightarrow> pyfloat" where
  "center_x_of b = fquot (fadd (fst b ! 0) (snd b ! 0)) (Fin 2)"

definition portrait_center_z_of :: "bounds \<Rightarrow> pyfloat" where
  "portrait_center_z_of b = fadd (fst b ! 2) (fmul (fsub (snd b ! 2) (fst b ! 2)) (Fin 0.75))"




text \<open>
  What the environment holds for an animation clip: whether its import returns without an
  exception, the action of the first object its import leaves selected (none when the
  import raises, selects nothing, or that object has no action), the NLA track that
  action gives under the clip's name, and the ERROR lines the import step prints.
\<close>

definition clip_imports :: "files \<Rightarrow> string \<Rightarrow> bool" where
  "clip_imports fs anim_path = (case import_scene fs anim_path of Inl e \<Rightarrow> False | Inr objs \<Rightarrow> True)"

definition clip_action :: "files \<Rightarrow> string \<Rightarrow> action option" where
  "clip_action fs anim_path =
     (case import_scene fs anim_path of
        Inl e \<Rightarrow> None
      | Inr objs \<Rightarrow> (case filter select objs of [] \<Rightarrow> None | ob # rest \<Rightarrow> action ob))"

definition clip_tracks :: "files \<Rightarrow> string \<times> string \<Rightarrow> nla_track list" where
  "clip_tracks fs clip =
     (case clip of (anim_name, anim_path) \<Rightarrow>
        (case clip_action fs anim_path of
           None \<Rightarrow> []
         | Some act \<Rightarrow>
             [\<lparr>track_name = anim_name,
               strips = [(anim_name, py_int (frame_start act), act\<lparr>action_name := anim_name\<rparr>)]\<rparr>]))"

definition clip_errors :: "files \<Rightarrow> string \<Rightarrow> string list" where
  "clip_errors fs anim_path =
     (case import_scene fs anim_path of
        Inl e \<Rightarrow> [''    - ERROR: '' @ str_exn e]
      | Inr objs \<Rightarrow>
          (if filter select objs = [] then [''    - ERROR: '' @ str_exn IndexError] else []))"

text \<open>
  The minimum and the maximum of a sequence of points on an axis, the largest span over
  the three axes, and the centre and the scale factor of \<open>center_and_scale_model\<close>
  for these points.
\<close>

definition axis_min :: "vector list \<Rightarrow> nat \<Rightarrow> real" where
  "axis_min ps i = Min ((\<lambda>p. vidx p i) ` set ps)"

definition axis_max :: "vector list \<Rightarrow> nat \<Rightarrow> real" where
  "axis_max ps i = Max ((\<lambda>p. vidx p i) ` set ps)"

definition axis_center :: "vector list \<Rightarrow> nat \<Rightarrow> real" where
  "axis_center ps i = (axis_min ps i + axis_max ps i) / 2"

definition extent_of :: "vector list \<Rightarrow> real" where
  "extent_of ps = Max ((\<lambda>i. axis_max ps i - axis_min ps i) ` {..<3})"

definition fit_scale :: "vector list \<Rightarrow> real" where
  "fit_scale ps = (if 0 < extent_of ps then 1.8 / extent_of ps else 1)"


subsection \<open>Sample environments\<close>

definition sample_rig :: obj where
  "sample_rig =
     (new_object ''Armature'' ARMATURE)\<lparr>select := True,
        location := fvec_of (2, 1, 0),
        pose_bones := [(''mixamorig:LeftArm'', Rest), (''mixamorig:Hips'', Rest)]\<rparr>"

definition scarecrow :: farmer_config where
  "scarecrow =
     \<lparr>farmer_id = ''scarecrow'', glb = path_join FARMER_MODELS_DIR ''scarecrow.glb'',
      output_file = ''scarecrow_portrait.png'', label = ''Scarecrow''\<rparr>"

text \<open>The text the sample hosts report for the import of a file that is not there.\<close>

definition no_such_file :: string where
  "no_such_file = ''Error: no such file''"

text \<open>A mesh object whose evaluated mesh has no vertex, and a farmer made of it.\<close>

definition ghost_mesh :: obj where
  "ghost_mesh = (new_object ''Ghost'' MESH)\<lparr>select := True, eval_vertices := Some []\<rparr>"

definition ghost :: farmer_config where
  "ghost =
     \<lparr>farmer_id = ''ghost'', glb = path_join FARMER_MODELS_DIR ''ghost.glb'',
      output_file = ''ghost_portrait.png'', label = ''Ghost''\<rparr>"

text \<open>A box: a mesh object away from the origin, with the eight corners of its bounds.\<close>

definition box :: obj where
  "box =
     (new_object ''Box'' MESH)\<lparr>select := True,
        location := fvec_of (0, 0.5, 0.25), scale := fvec_of (1, 2, 1),
        bound_box := [(-1, 0, 0), (-1, 0, 0.5), (-1, 1, 0.5), (-1, 1, 0),
                      (1, 0, 0), (1, 0, 0.5), (1, 1, 0.5), (1, 1, 0)]\<rparr>"



text \<open>
  The farmer models: john has an armature and a mesh, mary has an armature only, the
  scarecrow has a mesh only, the ghost has a mesh without vertices.
\<close>

definition farmer_files :: files where
  "farmer_files p =
     (if p = path_join FARMER_MODELS_DIR ''john.glb'' then Creates [sample_rig, sample_mesh]
      else if p = path_join FARMER_MODELS_DIR ''mary.glb'' then Creates [sample_rig]
      else if p = path_join FARMER_MODELS_DIR ''scarecrow.glb'' then Creates [sample_mesh]
      else if p = path_join FARMER_MODELS_DIR ''ghost.glb'' then Creates [ghost_mesh]
      else Absent no_such_file)"


text \<open>The cow's file is there and holds no object; the pig's file is absent.\<close>

definition mesh_less_files :: files where
  "mesh_less_files p = (if p = path_join MODELS_DIR ''cow.glb'' then Creates [] else Absent no_such_file)"

text \<open>
  The files of the export: George's model holds an armature and his mesh, Martha's model
  holds her mesh only; of George's two clips the idle one holds an armature with an
  action and the walk one is not there.
\<close>

definition george_mesh :: obj where
  "george_mesh = sample_mesh\<lparr>oname := ''Farmer_George''\<rparr>"

definition martha_mesh :: obj where
  "martha_mesh = sample_mesh\<lparr>oname := ''Farmer_Martha''\<rparr>"

definition idle_rig :: obj where
  "idle_rig =
     (new_object ''Armature.001'' ARMATURE)\<lparr>select := True, has_animation_data := True,
        action := Some \<lparr>action_name = ''Armature.001|mixamo.com|Layer0'', frame_start = 1\<rparr>\<rparr>"

definition fbx_files :: files where
  "fbx_files p =
     (if p = path_join ASSETS_ROOT ''George_Meshes/Farmer_George.fbx''
      then Creates [sample_rig, george_mesh]
      else if p = path_join ASSETS_ROOT ''Martha_Meshes/Farmer_Martha.fbx''
      then Creates [martha_mesh]
      else if p = path_join ASSETS_ROOT ''George_Meshes/DemoAnimationsFromMixamo/Idle.fbx''
      then Creates [idle_rig]
      else Absent no_such_file)"

text \<open>
  The same files with a walk clip that is there: its import selects a prop first and the
  animated armature after it.
\<close>

definition walk_prop :: obj where
  "walk_prop = (new_object ''Pitchfork'' MESH)\<lparr>select := True\<rparr>"

definition walk_rig :: obj where
  "walk_rig =
     (new_object ''Armature.002'' ARMATURE)\<lparr>select := True, has_animation_data := True,
        action := Some \<lparr>action_name = ''Armature.002|mixamo.com|Layer0'', frame_start = 1\<rparr>\<rparr>"

definition prop_files :: files where
  "prop_files p =
     (if p = path_join ASSETS_ROOT ''George_Meshes/DemoAnimationsFromMixamo/Walk.fbx''
      then Creates [walk_prop, walk_rig]
      else fbx_files p)"

text \<open>George's scene file: his mesh, a rig and a lamp.\<close>

definition george_rig :: obj where
  "george_rig = (new_object ''Farmer_George_Rig'' ARMATURE)"

definition blend_files :: files where
  "blend_files p =
     (if p = path_join ASSETS_ROOT ''Farmer_George.blend''
      then Creates [george_mesh, george_rig, new_object ''Lamp'' LIGHT]
      else if p = path_join ASSETS_ROOT ''George_Meshes/DemoAnimationsFromMixamo/Idle.fbx''
      then Creates [idle_rig]
      else Absent no_such_file)"

section \<open>Properties of the bounds scan and of the framing arithmetic\<close>

lemma range3: "[0..<3] = [0, 1, 2]"
  by (simp add: upt_rec)

lemma py_min_Fin: "py_min (Fin a) (Fin b) = Fin (min a b)"
  by (simp add: py_min_def min_def)

lemma py_max_Fin: "py_max (Fin a) (Fin b) = Fin (max a b)"
  by (simp add: py_max_def fgt_def max_def)

lemma py_min_PInf: "py_min PInf (Fin b) = Fin b"
  by (simp add: py_min_def)

lemma py_max_NInf: "py_max NInf (Fin b) = Fin b"
  by (simp add: py_max_def fgt_def)

lemma extend_bounds_initial: "extend_bounds initial_bounds p = (fins p, fins p)"
  by (cases p) (simp add: extend_bounds_def extend_axis_def initial_bounds_def range3 fins_def
      py_min_PInf py_max_NInf numeral_3_eq_3)

lemma extend_bounds_fins: "extend_bounds (fins a, fins b) p = (fins (vmin a p), fins (vmax b p))"
  by (cases a; cases b; cases p) (simp add: extend_bounds_def extend_axis_def range3 fins_def
      py_min_Fin py_max_Fin)

lemma scan_points_fins:
  "scan_points (fins a, fins b) ps = (fins (foldl vmin a ps), fins (foldl vmax b ps))"
  by (induction ps arbitrary: a b) (simp_all add: scan_points_def extend_bounds_fins)

lemma scan_points_Cons:
  "scan_points initial_bounds (p # ps) = (fins (foldl vmin p ps), fins (foldl vmax p ps))"
  using scan_points_fins [of p p ps] by (simp add: scan_points_def extend_bounds_initial)

lemma vidx_foldl_vmin:
  "i < 3 \<Longrightarrow> vidx (foldl vmin a ps) i = Min (insert (vidx a i) ((\<lambda>p. vidx p i) ` set ps))"
proof (induction ps arbitrary: a)
  case Nil
  then show ?case by simp
next
  case (Cons p ps)
  have step: "vidx (vmin a p) i = min (vidx a i) (vidx p i)"
    by (cases a; cases p) simp
  have "Min (insert (vidx (vmin a p) i) ((\<lambda>p. vidx p i) ` set ps))
      = Min (insert (vidx a i) (insert (vidx p i) ((\<lambda>p. vidx p i) ` set ps)))"
    unfolding step by (cases "set ps = {}") (simp_all add: min.assoc)
  with Cons show ?case by simp
qed

lemma vidx_foldl_vmax:
  "i < 3 \<Longrightarrow> vidx (foldl vmax a ps) i = Max (insert (vidx a i) ((\<lambda>p. vidx p i) ` set ps))"
proof (induction ps arbitrary: a)
  case Nil
  then show ?case by simp
next
  case (Cons p ps)
  have step: "vidx (vmax a p) i = max (vidx a i) (vidx p i)"
    by (cases a; cases p) simp
  have "Max (insert (vidx (vmax a p) i) ((\<lambda>p. vidx p i) ` set ps))
      = Max (insert (vidx a i) (insert (vidx p i) ((\<lambda>p. vidx p i) ` set ps)))"
    unfolding step by (cases "set ps = {}") (simp_all add: max.assoc)
  with Cons show ?case by simp
qed

lemma fins_nth: "i < 3 \<Longrightarrow> fins v ! i = Fin (vidx v i)"
  by (cases v) (auto simp: fins_def less_Suc_eq numeral_3_eq_3)

lemma fins_map: "fins v = map (\<lambda>i. Fin (vidx v i)) [0..<3]"
  by (cases v) (simp add: fins_def range3)


lemma foldl_extend_map:
  "foldl (\<lambda>b v. extend_bounds b (f v)) b vs = scan_points b (map f vs)"
  by (induction vs arbitrary: b) (simp_all add: scan_points_def)

lemma scan_points_append: "scan_points b (ps @ qs) = scan_points (scan_points b ps) qs"
  by (simp add: scan_points_def)

lemma bound_box_bounds_scan_from:
  "foldl (\<lambda>b ob. foldl (\<lambda>b vertex. extend_bounds b (matmul_vec (matrix_world ob) vertex))
                      b (bound_box ob)) b objs
   = scan_points b (concat (map world_corners objs))"
  by (induction objs arbitrary: b)
     (simp_all add: scan_points_append foldl_extend_map world_corners_def, simp add: scan_points_def)

lemma bound_box_bounds_scan:
  "bound_box_bounds objs = scan_points initial_bounds (concat (map world_corners objs))"
  by (simp add: bound_box_bounds_def bound_box_bounds_scan_from)

lemma get_model_bounds_scan_from:
  "foldl (\<lambda>b ob.
              case (if otype ob = MESH then eval_vertices ob else None) of
                Some verts \<Rightarrow>
                  foldl (\<lambda>b vert. extend_bounds b (matmul_vec (matrix_world ob) vert)) b verts
              | None \<Rightarrow>
                  foldl (\<lambda>b corner. extend_bounds b (matmul_vec (matrix_world ob) corner))
                    b (bound_box ob)) b objs
   = scan_points b (concat (map world_points objs))"
proof (induction objs arbitrary: b)
  case Nil
  show ?case by (simp add: scan_points_def)
next
  case (Cons ob objs)
  show ?case
    by (simp add: Cons scan_points_append foldl_extend_map world_points_def split: option.splits)
qed

lemma get_model_bounds_scan:
  "get_model_bounds objs = scan_points initial_bounds (concat (map world_points objs))"
  by (simp add: get_model_bounds_def get_model_bounds_scan_from)

lemma scan_points_nonempty:
  assumes "ps \<noteq> []"
  shows "scan_points initial_bounds ps =
     (map (\<lambda>i. Fin (Min ((\<lambda>p. vidx p i) ` set ps))) [0..<3],
      map (\<lambda>i. Fin (Max ((\<lambda>p. vidx p i) ` set ps))) [0..<3])"
proof -
  from assms obtain p qs where ps: "ps = p # qs" by (cases ps) auto
  have mn: "vidx (foldl vmin p qs) i = Min ((\<lambda>p. vidx p i) ` set ps)" if "i < 3" for i
    unfolding ps using vidx_foldl_vmin [OF that, of p qs] by (simp only: list.set image_insert)
  have mx: "vidx (foldl vmax p qs) i = Max ((\<lambda>p. vidx p i) ` set ps)" if "i < 3" for i
    unfolding ps using vidx_foldl_vmax [OF that, of p qs] by (simp only: list.set image_insert)
  have "fins (foldl vmin p qs) = map (\<lambda>i. Fin (Min ((\<lambda>p. vidx p i) ` set ps))) [0..<3]"
    unfolding fins_map
  proof (rule map_cong [OF refl])
    fix i :: nat assume "i \<in> set [0..<3]"
    then have "i < 3" by (simp only: set_upt atLeastLessThan_iff)
    then show "Fin (vidx (foldl vmin p qs) i) = Fin (Min ((\<lambda>p. vidx p i) ` set ps))"
      by (simp only: mn)
  qed
  moreover have "fins (foldl vmax p qs) = map (\<lambda>i. Fin (Max ((\<lambda>p. vidx p i) ` set ps))) [0..<3]"
    unfolding fins_map
  proof (rule map_cong [OF refl])
    fix i :: nat assume "i \<in> set [0..<3]"
    then have "i < 3" by (simp only: set_upt atLeastLessThan_iff)
    then show "Fin (vidx (foldl vmax p qs) i) = Fin (Max ((\<lambda>p. vidx p i) ` set ps))"
      by (simp only: mx)
  qed
  ultimately show ?thesis
    unfolding ps by (simp only: scan_points_Cons)
qed

lemma scan_points_ordered:
  assumes "ps \<noteq> []" "i < 3"
  shows "fle (fst (scan_points initial_bounds ps) ! i) (snd (scan_points initial_bounds ps) ! i)"
proof -
  from assms obtain p qs where ps: "ps = p # qs" by (cases ps) auto
  let ?A = "insert (vidx p i) ((\<lambda>p. vidx p i) ` set qs)"
  have "Min ?A \<le> vidx p i" by (rule Min_le) simp_all
  moreover have "vidx p i \<le> Max ?A" by (rule Max_ge) simp_all
  ultimately have "Min ?A \<le> Max ?A" by (rule order_trans)
  then have "vidx (foldl vmin p qs) i \<le> vidx (foldl vmax p qs) i"
    by (simp only: vidx_foldl_vmin [OF assms(2)] vidx_foldl_vmax [OF assms(2)])
  then show ?thesis
    unfolding ps
    by (simp only: scan_points_Cons fst_conv snd_conv fins_nth [OF assms(2)] fle.simps)
qed

lemma scan_two_points:
  assumes "i < 3"
  shows "fst (scan_points initial_bounds [a, b]) ! i = Fin (min (vidx a i) (vidx b i))"
    and "snd (scan_points initial_bounds [a, b]) ! i = Fin (max (vidx a i) (vidx b i))"
proof -
  have "vidx (vmin a b) i = min (vidx a i) (vidx b i)" by (cases a; cases b) simp
  moreover have "vidx (vmax a b) i = max (vidx a i) (vidx b i)" by (cases a; cases b) simp
  ultimately show "fst (scan_points initial_bounds [a, b]) ! i = Fin (min (vidx a i) (vidx b i))"
    and "snd (scan_points initial_bounds [a, b]) ! i = Fin (max (vidx a i) (vidx b i))"
    using assms by (simp_all add: scan_points_Cons fins_nth)
qed

text \<open>
  Claim C5. Both scans are the scan of the world-space points of the objects, in order.
  On a non-empty sequence of points the scan returns, on every axis, the minimum and the
  maximum of the coordinates of the points; on a single point \<open>p\<close> it returns
  \<open>(p, p)\<close>; on two points \<open>a\<close>, \<open>b\<close> the minimum is at most the maximum
  on every axis, and each is the coordinate of \<open>a\<close> or of \<open>b\<close>.
\<close>

theorem compute_bounds_min_max:
  "get_model_bounds objs = scan_points initial_bounds (concat (map world_points objs))
   \<and> bound_box_bounds objs = scan_points initial_bounds (concat (map world_corners objs))
   \<and> (ps \<noteq> [] \<longrightarrow>
        scan_points initial_bounds ps =
          (map (\<lambda>i. Fin (Min ((\<lambda>p. vidx p i) ` set ps))) [0..<3],
           map (\<lambda>i. Fin (Max ((\<lambda>p. vidx p i) ` set ps))) [0..<3]))
   \<and> scan_points initial_bounds [p] = (fins p, fins p)
   \<and> (\<forall>i<3. fle (fst (scan_points initial_bounds [a, b]) ! i)
                 (snd (scan_points initial_bounds [a, b]) ! i)
            \<and> fst (scan_points initial_bounds [a, b]) ! i \<in> {Fin (vidx a i), Fin (vidx b i)}
            \<and> snd (scan_points initial_bounds [a, b]) ! i \<in> {Fin (vidx a i), Fin (vidx b i)})"
proof (intro conjI allI impI)
  show "get_model_bounds objs = scan_points initial_bounds (concat (map world_points objs))"
    by (rule get_model_bounds_scan)
  show "bound_box_bounds objs = scan_points initial_bounds (concat (map world_corners objs))"
    by (rule bound_box_bounds_scan)
  show "scan_points initial_bounds ps =
          (map (\<lambda>i. Fin (Min ((\<lambda>p. vidx p i) ` set ps))) [0..<3],
           map (\<lambda>i. Fin (Max ((\<lambda>p. vidx p i) ` set ps))) [0..<3])" if "ps \<noteq> []"
    using that by (rule scan_points_nonempty)
  show "scan_points initial_bounds [p] = (fins p, fins p)"
    by (simp add: scan_points_Cons)
next
  fix i :: nat assume i: "i < 3"
  show "fle (fst (scan_points initial_bounds [a, b]) ! i)
            (snd (scan_points initial_bounds [a, b]) ! i)"
    by (simp only: scan_two_points [OF i]) simp
  show "fst (scan_points initial_bounds [a, b]) ! i \<in> {Fin (vidx a i), Fin (vidx b i)}"
    by (simp only: scan_two_points [OF i]) (simp add: min_def)
  show "snd (scan_points initial_bounds [a, b]) ! i \<in> {Fin (vidx a i), Fin (vidx b i)}"
    by (simp only: scan_two_points [OF i]) (simp add: max_def)
qed


lemma initial_bounds_eq: "initial_bounds = ([PInf, PInf, PInf], [NInf, NInf, NInf])"
  by (simp add: initial_bounds_def numeral_3_eq_3)

text \<open>
  Claim C6. With no point scanned the bounds are the infinities they start from. After
  any positive number \<open>k\<close> of points the minimum is at most the maximum on every axis,
  whatever the points are, and the result of \<open>get_model_bounds\<close> is the scan of the
  remaining points from the bounds reached after the first \<open>k\<close>.
\<close>

theorem bounds_invariant:
  "scan_points initial_bounds [] = ([PInf, PInf, PInf], [NInf, NInf, NInf])
   \<and> (\<forall>k i. 0 < k \<and> k \<le> length ps \<and> i < 3 \<longrightarrow>
          fle (fst (scan_points initial_bounds (take k ps)) ! i)
              (snd (scan_points initial_bounds (take k ps)) ! i))
   \<and> (concat (map world_points objs) = ps \<longrightarrow>
        get_model_bounds objs = scan_points (scan_points initial_bounds (take k ps)) (drop k ps))"
proof (intro conjI allI impI)
  show "scan_points initial_bounds [] = ([PInf, PInf, PInf], [NInf, NInf, NInf])"
    by (simp add: scan_points_def initial_bounds_eq)
next
  fix k i :: nat
  assume h: "0 < k \<and> k \<le> length ps \<and> i < 3"
  then have ne: "take k ps \<noteq> []" by auto
  from h have i: "i < 3" by simp
  from ne i show "fle (fst (scan_points initial_bounds (take k ps)) ! i)
              (snd (scan_points initial_bounds (take k ps)) ! i)"
    by (rule scan_points_ordered)
next
  assume "concat (map world_points objs) = ps"
  then have "get_model_bounds objs = scan_points initial_bounds (take k ps @ drop k ps)"
    by (simp add: get_model_bounds_scan)
  then show "get_model_bounds objs
      = scan_points (scan_points initial_bounds (take k ps)) (drop k ps)"
    by (simp only: scan_points_append)
qed

lemma py_truediv_two: "py_truediv a (Fin 2) = Inr (fquot a (Fin 2))"
  by (simp add: py_truediv_def)

lemma center_of_fins:
  "center_of (fins mn, fins mx) = Inr (map (\<lambda>i. Fin ((vidx mn i + vidx mx i) / 2)) [0..<3])"
  by (cases mn; cases mx) (simp add: center_of_def fins_def range3 py_truediv_two)

lemma Max_three: "Max ((\<lambda>i. f i) ` {..<3::nat}) = max (max (f 0) (f 1)) (f 2 :: real)"
proof -
  have "{..<3::nat} = {0, 1, 2}" by auto
  then show ?thesis by (simp add: max.commute max.left_commute)
qed

lemma size_of_fins:
  "size_of (fins mn, fins mx) = Inr (Fin (Max ((\<lambda>i. vidx mx i - vidx mn i) ` {..<3})))"
  by (cases mn; cases mx)
     (simp add: Max_three size_of_def fins_def range3 py_max_seq_def fsub_def py_max_Fin)

lemma center_of_total: "\<exists>c. center_of b = Inr c \<and> length c = 3"
  by (cases b) (simp add: center_of_def range3 py_truediv_two)

lemma size_of_total: "\<exists>s. size_of b = Inr s"
  by (cases b) (simp add: size_of_def range3 py_max_seq_def)

lemma scale_factor_of_total: "\<exists>f. scale_factor_of t s = Inr f"
  by (cases s) (auto simp: scale_factor_of_def py_truediv_def fgt_def)

lemma center_and_scale_model_total: "\<exists>objs'. center_and_scale_model objs = Inr objs'"
proof -
  obtain c where c: "center_of (bound_box_bounds objs) = Inr c"
    using center_of_total by blast
  obtain s where s: "size_of (bound_box_bounds objs) = Inr s"
    using size_of_total by blast
  obtain f where f: "scale_factor_of target_size s = Inr f"
    using scale_factor_of_total by blast
  show ?thesis
    by (simp add: center_and_scale_model_def Let_def c s f)
qed

lemma bound_box_bounds_points:
  assumes "concat (map world_corners objs) = ps" "ps \<noteq> []"
  shows "bound_box_bounds objs =
     (fins (axis_min ps 0, axis_min ps 1, axis_min ps 2),
      fins (axis_max ps 0, axis_max ps 1, axis_max ps 2))"
  unfolding bound_box_bounds_scan assms(1) scan_points_nonempty [OF assms(2)]
  by (simp add: range3 fins_def axis_min_def axis_max_def)

lemma extent_of_eq:
  "Max ((\<lambda>i. vidx (axis_max ps 0, axis_max ps 1, axis_max ps 2) i
              - vidx (axis_min ps 0, axis_min ps 1, axis_min ps 2) i) ` {..<3})
     = extent_of ps"
proof -
  have "(\<lambda>i. vidx (axis_max ps 0, axis_max ps 1, axis_max ps 2) i
              - vidx (axis_min ps 0, axis_min ps 1, axis_min ps 2) i) ` {..<3::nat}
      = (\<lambda>i. axis_max ps i - axis_min ps i) ` {..<3}"
  proof (rule image_cong [OF refl])
    fix i :: nat assume "i \<in> {..<3}"
    then have "i = 0 \<or> i = 1 \<or> i = 2" by auto
    then show "vidx (axis_max ps 0, axis_max ps 1, axis_max ps 2) i
              - vidx (axis_min ps 0, axis_min ps 1, axis_min ps 2) i
              = axis_max ps i - axis_min ps i"
      by auto
  qed
  then show ?thesis by (simp only: extent_of_def)
qed

lemma scale_factor_of_target:
  "scale_factor_of target_size (Fin e) = Inr (Fin (if 0 < e then 1.8 / e else 1))"
  by (simp add: scale_factor_of_def target_size_def fgt_def py_truediv_def)

lemma center_and_scale_model_points:
  assumes "concat (map world_corners objs) = ps" "ps \<noteq> []"
  shows "center_and_scale_model objs =
     Inr (map (\<lambda>ob. ob\<lparr>location :=
                          sub_z (sub_y (sub_x (location ob) (Fin (axis_center ps 0)))
                                   (Fin (axis_center ps 1))) (Fin (axis_center ps 2)),
                        scale := vscale (scale ob) (Fin (fit_scale ps))\<rparr>) objs)"
proof -
  from assms have ne: "objs \<noteq> []" by auto
  note b = bound_box_bounds_points [OF assms]
  have c: "center_of (bound_box_bounds objs)
      = Inr [Fin (axis_center ps 0), Fin (axis_center ps 1), Fin (axis_center ps 2)]"
    unfolding b center_of_fins by (simp add: range3 axis_center_def)
  have s: "size_of (bound_box_bounds objs) = Inr (Fin (extent_of ps))"
    unfolding b size_of_fins by (simp only: extent_of_eq)
  have f: "scale_factor_of target_size (Fin (extent_of ps)) = Inr (Fin (fit_scale ps))"
    by (simp only: scale_factor_of_target fit_scale_def)
  show ?thesis
    using ne by (simp add: center_and_scale_model_def Let_def c s f)
qed

text \<open>
  Claim C1. On finite bounds the centre is the mean of minimum and maximum on every
  axis and the size is the largest span; the scale factor is the target size divided by
  the size when the size is positive and 1 when it is zero; bounds that are a single
  point give that point as centre and size 0; and \<open>center_and_scale_model\<close> never
  raises (no division by zero), whatever the objects are. On any bounds, finite or not,
  the three values are computed without an exception, by the same float operations.
  For objects whose bounding boxes have at least one corner, \<open>center_and_scale_model\<close>
  returns every object with the centre of the bounds of all corners subtracted from its
  location, axis by axis, and its scale multiplied by the scale factor for the largest
  span of these bounds and the target size 1.8.
\<close>

theorem compute_center_and_scale:
  "center_of (fins mn, fins mx) = Inr (map (\<lambda>i. Fin ((vidx mn i + vidx mx i) / 2)) [0..<3])
   \<and> size_of (fins mn, fins mx) = Inr (Fin (Max ((\<lambda>i. vidx mx i - vidx mn i) ` {..<3})))
   \<and> (0 < extent \<longrightarrow> scale_factor_of (Fin t) (Fin extent) = Inr (Fin (t / extent)))
   \<and> (extent = 0 \<longrightarrow> scale_factor_of (Fin t) (Fin extent) = Inr (Fin 1))
   \<and> center_of (fins p, fins p) = Inr (fins p)
   \<and> size_of (fins p, fins p) = Inr (Fin 0)
   \<and> (\<exists>objs'. center_and_scale_model objs = Inr objs')
   \<and> center_of (lo, hi) = Inr (map (\<lambda>i. fquot (fadd (lo ! i) (hi ! i)) (Fin 2)) [0..<3])
   \<and> (\<exists>s. size_of (lo, hi) = Inr s)
   \<and> scale_factor_of target s = Inr (if fgt s (Fin 0) then fquot target s else Fin 1)
   \<and> (concat (map world_corners objs) = ps \<and> ps \<noteq> [] \<longrightarrow>
        center_and_scale_model objs =
          Inr (map (\<lambda>ob. ob\<lparr>location :=
                               sub_z (sub_y (sub_x (location ob) (Fin (axis_center ps 0)))
                                        (Fin (axis_center ps 1))) (Fin (axis_center ps 2)),
                             scale := vscale (scale ob) (Fin (fit_scale ps))\<rparr>) objs))"
proof (intro conjI impI)
  show "center_and_scale_model objs =
          Inr (map (\<lambda>ob. ob\<lparr>location :=
                               sub_z (sub_y (sub_x (location ob) (Fin (axis_center ps 0)))
                                        (Fin (axis_center ps 1))) (Fin (axis_center ps 2)),
                             scale := vscale (scale ob) (Fin (fit_scale ps))\<rparr>) objs)"
    if "concat (map world_corners objs) = ps \<and> ps \<noteq> []"
    using that by (intro center_and_scale_model_points) simp_all
  show "center_of (lo, hi) = Inr (map (\<lambda>i. fquot (fadd (lo ! i) (hi ! i)) (Fin 2)) [0..<3])"
    by (simp add: center_of_def range3 py_truediv_two)
  show "\<exists>s. size_of (lo, hi) = Inr s"
    by (rule size_of_total)
  show "scale_factor_of target s = Inr (if fgt s (Fin 0) then fquot target s else Fin 1)"
    by (cases s) (simp_all add: scale_factor_of_def py_truediv_def fgt_def)
  show "center_of (fins mn, fins mx) = Inr (map (\<lambda>i. Fin ((vidx mn i + vidx mx i) / 2)) [0..<3])"
    by (rule center_of_fins)
  show "size_of (fins mn, fins mx) = Inr (Fin (Max ((\<lambda>i. vidx mx i - vidx mn i) ` {..<3})))"
    by (rule size_of_fins)
  show "scale_factor_of (Fin t) (Fin extent) = Inr (Fin (t / extent))" if "0 < extent"
    using that by (simp add: scale_factor_of_def fgt_def py_truediv_def)
  show "scale_factor_of (Fin t) (Fin extent) = Inr (Fin 1)" if "extent = 0"
    using that by (simp add: scale_factor_of_def fgt_def)
  show "center_of (fins p, fins p) = Inr (fins p)"
    by (cases p) (simp add: center_of_def fins_def range3 py_truediv_two)
  show "size_of (fins p, fins p) = Inr (Fin 0)"
    by (cases p) (simp add: size_of_def fins_def range3 py_max_seq_def fsub_def py_max_Fin)
  show "\<exists>objs'. center_and_scale_model objs = Inr objs'"
    by (rule center_and_scale_model_total)
qed


theorem compute_bounds_min_max_witness:
  "[(1, 5, -2), (3, 0, 4)] \<noteq> ([] :: vector list)
   \<and> scan_points initial_bounds [(1, 5, -2), (3, 0, 4)]
       = ([Fin 1, Fin 0, Fin (-2)], [Fin 3, Fin 5, Fin 4])
   \<and> get_model_bounds [sample_mesh] = ([Fin 1, Fin 0, Fin (-2)], [Fin 3, Fin 5, Fin 4])
   \<and> (1::nat) < 3
   \<and> fle (fst (scan_points initial_bounds [(1, 5, -2), (3, 0, 4)]) ! 1)
          (snd (scan_points initial_bounds [(1, 5, -2), (3, 0, 4)]) ! 1)"
proof -
  have pts: "concat (map world_points [sample_mesh]) = [(1, 5, -2), (3, 0, 4)]"
    by (simp add: world_points_def sample_mesh_def new_object_def identity_matrix_def)
  have one: "(1::nat) < 3" by simp
  note inst = compute_bounds_min_max [of "[sample_mesh]" "[(1, 5, -2), (3, 0, 4)]"
      "(0, 0, 0)" "(1, 5, -2)" "(3, 0, 4)"]
  from inst have scan: "scan_points initial_bounds [(1, 5, -2), (3, 0, 4)]
       = ([Fin 1, Fin 0, Fin (-2)], [Fin 3, Fin 5, Fin 4])"
    by (simp add: range3)
  from inst have gm: "get_model_bounds [sample_mesh]
       = scan_points initial_bounds (concat (map world_points [sample_mesh]))"
    by (rule conjunct1)
  from inst one have "fle (fst (scan_points initial_bounds [(1, 5, -2), (3, 0, 4)]) ! 1)
          (snd (scan_points initial_bounds [(1, 5, -2), (3, 0, 4)]) ! 1)"
    by blast
  with scan gm pts show ?thesis by simp
qed

theorem bounds_invariant_witness:
  "0 < (1::nat) \<and> 1 \<le> length [(1, 5, -2), (3, 0, 4) :: vector] \<and> (2::nat) < 3
   \<and> fle (fst (scan_points initial_bounds (take 1 [(1, 5, -2), (3, 0, 4)])) ! 2)
          (snd (scan_points initial_bounds (take 1 [(1, 5, -2), (3, 0, 4)])) ! 2)
   \<and> concat (map world_points [sample_mesh]) = [(1, 5, -2), (3, 0, 4)]
   \<and> get_model_bounds [sample_mesh]
       = scan_points (scan_points initial_bounds (take 1 [(1, 5, -2), (3, 0, 4)]))
           (drop 1 [(1, 5, -2), (3, 0, 4)])"
proof -
  have pts: "concat (map world_points [sample_mesh]) = [(1, 5, -2), (3, 0, 4)]"
    by (simp add: world_points_def sample_mesh_def new_object_def identity_matrix_def)
  have h: "0 < (1::nat) \<and> 1 \<le> length [(1, 5, -2), (3, 0, 4) :: vector] \<and> (2::nat) < 3"
    by simp
  note inst = bounds_invariant [of "[(1, 5, -2), (3, 0, 4)]" "[sample_mesh]" 1]
  from inst h have "fle (fst (scan_points initial_bounds (take 1 [(1, 5, -2), (3, 0, 4)])) ! 2)
          (snd (scan_points initial_bounds (take 1 [(1, 5, -2), (3, 0, 4)])) ! 2)"
    by blast
  moreover from inst pts have "get_model_bounds [sample_mesh]
       = scan_points (scan_points initial_bounds (take 1 [(1, 5, -2), (3, 0, 4)]))
           (drop 1 [(1, 5, -2), (3, 0, 4)])"
    by blast
  ultimately show ?thesis using pts h by blast
qed

lemma box_corners:
  "concat (map world_corners [box]) =
     [(-1, 0, 0), (-1, 0, 0.5), (-1, 1, 0.5), (-1, 1, 0),
      (1, 0, 0), (1, 0, 0.5), (1, 1, 0.5), (1, 1, 0)]"
  by (simp add: world_corners_def box_def new_object_def identity_matrix_def)

lemma box_axes:
  "axis_center [(-1, 0, 0), (-1, 0, 0.5), (-1, 1, 0.5), (-1, 1, 0),
      (1, 0, 0), (1, 0, 0.5), (1, 1, 0.5), (1, 1, 0)] 0 = 0"
  "axis_center [(-1, 0, 0), (-1, 0, 0.5), (-1, 1, 0.5), (-1, 1, 0),
      (1, 0, 0), (1, 0, 0.5), (1, 1, 0.5), (1, 1, 0)] 1 = 0.5"
  "axis_center [(-1, 0, 0), (-1, 0, 0.5), (-1, 1, 0.5), (-1, 1, 0),
      (1, 0, 0), (1, 0, 0.5), (1, 1, 0.5), (1, 1, 0)] 2 = 0.25"
  "fit_scale [(-1, 0, 0), (-1, 0, 0.5), (-1, 1, 0.5), (-1, 1, 0),
      (1, 0, 0), (1, 0, 0.5), (1, 1, 0.5), (1, 1, 0)] = 0.9"
proof -
  have three: "{..<3::nat} = {0, 1, 2}" by auto
  show "axis_center [(-1, 0, 0), (-1, 0, 0.5), (-1, 1, 0.5), (-1, 1, 0),
      (1, 0, 0), (1, 0, 0.5), (1, 1, 0.5), (1, 1, 0)] 0 = 0"
    by (simp add: axis_center_def axis_min_def axis_max_def)
  show "axis_center [(-1, 0, 0), (-1, 0, 0.5), (-1, 1, 0.5), (-1, 1, 0),
      (1, 0, 0), (1, 0, 0.5), (1, 1, 0.5), (1, 1, 0)] 1 = 0.5"
    by (simp add: axis_center_def axis_min_def axis_max_def)
  show "axis_center [(-1, 0, 0), (-1, 0, 0.5), (-1, 1, 0.5), (-1, 1, 0),
      (1, 0, 0), (1, 0, 0.5), (1, 1, 0.5), (1, 1, 0)] 2 = 0.25"
    by (simp add: axis_center_def axis_min_def axis_max_def)
  show "fit_scale [(-1, 0, 0), (-1, 0, 0.5), (-1, 1, 0.5), (-1, 1, 0),
      (1, 0, 0), (1, 0, 0.5), (1, 1, 0.5), (1, 1, 0)] = 0.9"
    by (simp add: fit_scale_def extent_of_def axis_min_def axis_max_def three)
qed

theorem compute_center_and_scale_witness:
  "(0::real) < 2
   \<and> scale_factor_of (Fin 2) (Fin 2) = Inr (Fin 1)
   \<and> size_of (fins (-1, 0, 0), fins (1, 1, 0.5)) = Inr (Fin 2)
   \<and> center_of (fins (-1, 0, 0), fins (1, 1, 0.5)) = Inr [Fin 0, Fin 0.5, Fin 0.25]
   \<and> scale_factor_of (Fin 1.8) (Fin 0) = Inr (Fin 1)
   \<and> location box = (Fin 0, Fin 0.5, Fin 0.25)
   \<and> scale box = (Fin 1, Fin 2, Fin 1)
   \<and> center_and_scale_model [box]
       = Inr [box\<lparr>location := (Fin 0, Fin 0, Fin 0), scale := (Fin 0.9, Fin 1.8, Fin 0.9)\<rparr>]"
proof -
  have pos: "(0::real) < 2" by simp
  note inst = compute_center_and_scale [where mn = "(-1, 0, 0)" and mx = "(1, 1, 0.5)"
      and extent = 2 and t = 2 and p = "(0, 0, 0)" and objs = "[box]"
      and lo = "[PInf, PInf, PInf]" and hi = "[NInf, NInf, NInf]" and target = "Fin 1.8"
      and s = NInf
      and ps = "[(-1, 0, 0), (-1, 0, 0.5), (-1, 1, 0.5), (-1, 1, 0),
                 (1, 0, 0), (1, 0, 0.5), (1, 1, 0.5), (1, 1, 0)]"]
  note inst0 = compute_center_and_scale [where mn = "(-1, 0, 0)" and mx = "(1, 1, 0.5)"
      and extent = 0 and t = "1.8" and p = "(0, 0, 0)" and objs = "[]"
      and lo = "[PInf, PInf, PInf]" and hi = "[NInf, NInf, NInf]" and target = "Fin 1.8"
      and s = NInf and ps = "[]"]
  from inst [THEN conjunct2, THEN conjunct2, THEN conjunct1] pos
  have a: "scale_factor_of (Fin 2) (Fin 2) = Inr (Fin 1)" by simp
  from inst0 [THEN conjunct2, THEN conjunct2, THEN conjunct2, THEN conjunct1]
  have b: "scale_factor_of (Fin 1.8) (Fin 0) = Inr (Fin 1)" by simp
  have three: "{..<3::nat} = {0, 1, 2}" by auto
  from inst [THEN conjunct2, THEN conjunct1]
  have "size_of (fins (-1, 0, 0), fins (1, 1, 0.5))
      = Inr (Fin (Max ((\<lambda>i. vidx (1, 1, 0.5) i - vidx (-1, 0, 0) i) ` {..<3})))" .
  then have c: "size_of (fins (-1, 0, 0), fins (1, 1, 0.5)) = Inr (Fin 2)"
    by (simp add: three)
  from inst [THEN conjunct1]
  have "center_of (fins (-1, 0, 0), fins (1, 1, 0.5))
      = Inr (map (\<lambda>i. Fin ((vidx (-1, 0, 0) i + vidx (1, 1, 0.5) i) / 2)) [0..<3])" .
  then have d: "center_of (fins (-1, 0, 0), fins (1, 1, 0.5)) = Inr [Fin 0, Fin 0.5, Fin 0.25]"
    by (simp add: range3)
  have ne: "[(-1, 0, 0), (-1, 0, 0.5), (-1, 1, 0.5), (-1, 1, 0),
             (1, 0, 0), (1, 0, 0.5), (1, 1, 0.5), (1, 1, 0)] \<noteq> ([] :: vector list)"
    by simp
  note link = inst [THEN conjunct2, THEN conjunct2, THEN conjunct2, THEN conjunct2,
      THEN conjunct2, THEN conjunct2, THEN conjunct2, THEN conjunct2, THEN conjunct2,
      THEN conjunct2, THEN mp, OF conjI [OF box_corners ne]]
  from link
  have "center_and_scale_model [box] =
     Inr (map (\<lambda>ob. ob\<lparr>location :=
          sub_z (sub_y (sub_x (location ob)
            (Fin (axis_center [(-1, 0, 0), (-1, 0, 0.5), (-1, 1, 0.5), (-1, 1, 0),
                               (1, 0, 0), (1, 0, 0.5), (1, 1, 0.5), (1, 1, 0)] 0)))
            (Fin (axis_center [(-1, 0, 0), (-1, 0, 0.5), (-1, 1, 0.5), (-1, 1, 0),
                               (1, 0, 0), (1, 0, 0.5), (1, 1, 0.5), (1, 1, 0)] 1)))
            (Fin (axis_center [(-1, 0, 0), (-1, 0, 0.5), (-1, 1, 0.5), (-1, 1, 0),
                               (1, 0, 0), (1, 0, 0.5), (1, 1, 0.5), (1, 1, 0)] 2)),
          scale := vscale (scale ob)
            (Fin (fit_scale [(-1, 0, 0), (-1, 0, 0.5), (-1, 1, 0.5), (-1, 1, 0),
                             (1, 0, 0), (1, 0, 0.5), (1, 1, 0.5), (1, 1, 0)]))\<rparr>) [box])" .
  then have e: "center_and_scale_model [box]
       = Inr [box\<lparr>location := (Fin 0, Fin 0, Fin 0), scale := (Fin 0.9, Fin 1.8, Fin 0.9)\<rparr>]"
    unfolding box_axes by (simp add: box_def new_object_def fvec_of_def fsub_def)
  have l: "location box = (Fin 0, Fin 0.5, Fin 0.25)" "scale box = (Fin 1, Fin 2, Fin 1)"
    by (simp_all add: box_def new_object_def fvec_of_def)
  show ?thesis by (intro conjI) (rule pos a b c d l e)+
qed

section \<open>Properties of the farmer renderer and of the skipped assets\<close>

lemma render_farmer_success:
  assumes "path_exists fs (glb farmer)"
    and "load_farmer_glb fs (glb farmer) = Inr (arm0, ms)"
    and "ms \<noteq> []"
  shows "render_farmer fs farmer st0 =
     Inr (True,
       render_still
         ((case pose_idle arm0 of
             Some a \<Rightarrow>
               (farmer_setup_camera (Fin 0) (portrait_center_z_of (get_model_bounds ms))
                  (farmer_setup_lighting (clear_scene st0)))
               \<lparr>armature := Some (a\<lparr>location := sub_x (location a)
                                         (center_x_of (get_model_bounds ms))\<rparr>),
                meshes := ms\<rparr>
           | None \<Rightarrow>
               (farmer_setup_camera (Fin 0) (portrait_center_z_of (get_model_bounds ms))
                  (farmer_setup_lighting (clear_scene st0)))
               \<lparr>armature := None,
                meshes := map (\<lambda>m. m\<lparr>location := sub_x (location m)
                                         (center_x_of (get_model_bounds ms))\<rparr>) ms\<rparr>)
          \<lparr>render_filepath := path_join OUTPUT_DIR (output_file farmer)\<rparr>))"
  using assms
  by (simp add: render_farmer_def Let_def py_truediv_two center_x_of_def
      portrait_center_z_of_def split: prod.splits option.splits)

lemma render_farmer_no_meshes:
  assumes "path_exists fs (glb farmer)"
    and "load_farmer_glb fs (glb farmer) = Inr (arm0, [])"
  shows "render_farmer fs farmer st0 =
     Inr (False, print_line (''  ERROR: No mesh objects imported from '' @ glb farmer)
                   (farmer_setup_lighting (clear_scene st0)))"
  using assms by (simp add: render_farmer_def Let_def)

lemma pose_idle_None: "pose_idle arm = None \<longleftrightarrow> arm = None"
  by (simp add: pose_idle_def split: option.splits)

lemma pose_idle_Some:
  "pose_idle (Some a) = Some a' \<Longrightarrow>
     location a' = location a \<and> rotation_euler a' = rotation_euler a \<and> scale a' = scale a
     \<and> oname a' = oname a"
  by (auto simp: pose_idle_def split: if_splits)

lemma written_camera:
  "written (farmer_setup_camera y z st) = written st"
  "log (farmer_setup_camera y z st) = log st"
  "objects (farmer_setup_camera y z st) =
     objects st @ [placed ''PortraitCam'' CAMERA (Fin 0, Fin (-4), z) (fvec_of (radians 90, 0, 0))]"
  by (simp_all add: farmer_setup_camera_def link_object_def)

lemma written_lighting:
  "written (farmer_setup_lighting st) = written st"
  "log (farmer_setup_lighting st) = log st"
  "\<forall>ob \<in> set (objects (farmer_setup_lighting (clear_scene st))). otype ob = LIGHT"
  by (simp_all add: farmer_setup_lighting_def link_object_def clear_scene_def placed_def
      new_object_def)

lemma written_clear:
  "written (clear_scene st) = written st" "log (clear_scene st) = log st"
  by (simp_all add: clear_scene_def)


lemma find_armature_and_mesh_None:
  "(fst (find_armature_and_mesh n objs) = None) = (\<forall>ob \<in> set objs. otype ob \<noteq> ARMATURE)"
  "(snd (find_armature_and_mesh n objs) = None)
     = (\<forall>ob \<in> set objs. \<not> (otype ob = MESH \<and> is_substring n (oname ob)))"
  unfolding find_armature_and_mesh_def
  by (induction objs rule: rev_induct) (auto split: prod.splits)

lemma process_character_missing:
  assumes "import_scene fs (fbx config) = Inr objs"
    and "(\<forall>ob \<in> set objs. otype ob \<noteq> ARMATURE)
         \<or> (\<forall>ob \<in> set objs. \<not> (otype ob = MESH \<and> is_substring (mesh_name config) (oname ob)))"
  shows "process_character fs char_key config st =
           Inr (log_error ''  ERROR: Missing Armature or Mesh'' (st\<lparr>data_objects := objs\<rparr>))"
proof -
  obtain a m where am: "find_armature_and_mesh (mesh_name config) objs = (a, m)"
    by (cases "find_armature_and_mesh (mesh_name config) objs") auto
  from assms(2) have "a = None \<or> m = None"
    using find_armature_and_mesh_None [of "mesh_name config" objs] by (auto simp: am)
  then show ?thesis
    using assms(1) am
    by (auto simp: process_character_def Let_def split: option.splits)
qed

text \<open>
  Claim C8. When the import of a character's model succeeds and the scene holds no
  armature, or no mesh whose name contains the expected name, \<open>process_character\<close>
  prints an error and returns: no export call is made. When the import of a farmer's
  model yields no mesh object, \<open>render_farmer\<close> prints an error and returns False:
  no image is written.
\<close>

theorem missing_elements_skip:
  "(import_scene fs (fbx config) = Inr objs
      \<and> ((\<forall>ob \<in> set objs. otype ob \<noteq> ARMATURE)
          \<or> (\<forall>ob \<in> set objs. \<not> (otype ob = MESH \<and> is_substring (mesh_name config) (oname ob))))
    \<longrightarrow> (\<exists>st'. process_character fs char_key config st = Inr st'
            \<and> exported st' = exported st
            \<and> errors st' = errors st @ [''  ERROR: Missing Armature or Mesh'']))
   \<and> (path_exists fs (glb farmer) \<and> load_farmer_glb fs (glb farmer) = Inr (arm0, [])
    \<longrightarrow> (\<exists>st'. render_farmer fs farmer st0 = Inr (False, st')
            \<and> written st' = written st0
            \<and> log st' = log st0 @ [''  ERROR: No mesh objects imported from '' @ glb farmer]))"
proof (intro conjI impI)
  assume h: "import_scene fs (fbx config) = Inr objs
      \<and> ((\<forall>ob \<in> set objs. otype ob \<noteq> ARMATURE)
          \<or> (\<forall>ob \<in> set objs. \<not> (otype ob = MESH \<and> is_substring (mesh_name config) (oname ob))))"
  then have "process_character fs char_key config st =
           Inr (log_error ''  ERROR: Missing Armature or Mesh'' (st\<lparr>data_objects := objs\<rparr>))"
    by (intro process_character_missing) simp_all
  then show "\<exists>st'. process_character fs char_key config st = Inr st'
            \<and> exported st' = exported st
            \<and> errors st' = errors st @ [''  ERROR: Missing Armature or Mesh'']"
    by (simp add: log_error_def)
next
  assume h: "path_exists fs (glb farmer) \<and> load_farmer_glb fs (glb farmer) = Inr (arm0, [])"
  then have "render_farmer fs farmer st0 =
     Inr (False, print_line (''  ERROR: No mesh objects imported from '' @ glb farmer)
                   (farmer_setup_lighting (clear_scene st0)))"
    by (intro render_farmer_no_meshes) simp_all
  then show "\<exists>st'. render_farmer fs farmer st0 = Inr (False, st')
            \<and> written st' = written st0
            \<and> log st' = log st0 @ [''  ERROR: No mesh objects imported from '' @ glb farmer]"
    by (simp add: print_line_def written_lighting written_clear)
qed

text \<open>
  Claim C7. For a farmer whose meshes have at least one world-space point,
  \<open>render_farmer\<close> succeeds and places the camera at height
  \<open>min_z + 0.75 * (max_z - min_z)\<close> of the bounds of these points (in front of the
  model, at \<open>y = -4\<close>), and the scales of the armature and of the meshes are the
  ones they were imported with.
\<close>

theorem portrait_focus:
  assumes "path_exists fs (glb farmer)"
    and "load_farmer_glb fs (glb farmer) = Inr (arm0, ms)"
    and "concat (map world_points ms) = ps"
    and "ps \<noteq> []"
  shows "\<exists>st' cam. render_farmer fs farmer st0 = Inr (True, st')
     \<and> objects st' = objects (farmer_setup_lighting (clear_scene st0)) @ [cam]
     \<and> otype cam = CAMERA
     \<and> location cam =
         (Fin 0, Fin (-4),
          Fin (Min ((\<lambda>p. vidx p 2) ` set ps)
               + 0.75 * (Max ((\<lambda>p. vidx p 2) ` set ps) - Min ((\<lambda>p. vidx p 2) ` set ps))))
     \<and> map scale (meshes st') = map scale ms
     \<and> map_option scale (armature st') = map_option scale arm0"
proof -
  from assms(3,4) have ne: "ms \<noteq> []" by auto
  have b: "get_model_bounds ms =
     (map (\<lambda>i. Fin (Min ((\<lambda>p. vidx p i) ` set ps))) [0..<3],
      map (\<lambda>i. Fin (Max ((\<lambda>p. vidx p i) ` set ps))) [0..<3])"
    unfolding get_model_bounds_scan assms(3) using assms(4) by (rule scan_points_nonempty)
  have z: "portrait_center_z_of (get_model_bounds ms) =
     Fin (Min ((\<lambda>p. vidx p 2) ` set ps)
          + 0.75 * (Max ((\<lambda>p. vidx p 2) ` set ps) - Min ((\<lambda>p. vidx p 2) ` set ps)))"
    unfolding b by (simp add: portrait_center_z_of_def range3 fsub_def)
  have sc: "map (scale \<circ> (\<lambda>m. m\<lparr>location := f m\<rparr>)) ms = map scale ms" for f
    by (rule map_cong) simp_all
  show ?thesis
  proof (cases "pose_idle arm0")
    case None
    then have "arm0 = None" by (simp add: pose_idle_None)
    with None show ?thesis
      unfolding render_farmer_success [OF assms(1,2) ne]
      by (simp add: render_still_def written_camera z placed_def new_object_def sc)
  next
    case (Some a')
    then obtain a where a: "arm0 = Some a" by (cases arm0) (simp_all add: pose_idle_def)
    with Some have "scale a' = scale a" using pose_idle_Some by blast
    with Some a show ?thesis
      unfolding render_farmer_success [OF assms(1,2) ne]
      by (simp add: render_still_def written_camera z placed_def new_object_def)
  qed
qed

text \<open>
  Claim C10. When \<open>render_farmer\<close> renders, the armature (when one was imported)
  has its location moved by the horizontal centre on x only, and the meshes are as
  imported; with no armature every mesh has its location moved on x only. The y and z
  components of the location, the rotation and the scale of each of them are unchanged.
\<close>

theorem farmer_centering_only_x:
  assumes "path_exists fs (glb farmer)"
    and "load_farmer_glb fs (glb farmer) = Inr (arm0, ms)"
    and "ms \<noteq> []"
  shows "\<exists>st'. render_farmer fs farmer st0 = Inr (True, st')
     \<and> (case arm0 of
          Some a \<Rightarrow>
            (\<exists>a'. armature st' = Some a'
               \<and> fst (location a') = fsub (fst (location a)) (center_x_of (get_model_bounds ms))
               \<and> snd (location a') = snd (location a)
               \<and> rotation_euler a' = rotation_euler a
               \<and> scale a' = scale a)
            \<and> meshes st' = ms
        | None \<Rightarrow>
            armature st' = None
            \<and> length (meshes st') = length ms
            \<and> (\<forall>j<length ms.
                  fst (location (meshes st' ! j))
                    = fsub (fst (location (ms ! j))) (center_x_of (get_model_bounds ms))
                  \<and> snd (location (meshes st' ! j)) = snd (location (ms ! j))
                  \<and> rotation_euler (meshes st' ! j) = rotation_euler (ms ! j)
                  \<and> scale (meshes st' ! j) = scale (ms ! j)))"
proof (cases arm0)
  case None
  have sx: "fst (sub_x v c) = fsub (fst v) c \<and> snd (sub_x v c) = snd v" for v c
    by (cases v) simp
  from None show ?thesis
    unfolding render_farmer_success [OF assms]
    by (simp add: pose_idle_def render_still_def sx)
next
  case (Some a)
  have sx: "fst (sub_x v c) = fsub (fst v) c \<and> snd (sub_x v c) = snd v" for v c
    by (cases v) simp
  obtain a' where a': "pose_idle (Some a) = Some a'"
    by (cases "pose_idle (Some a)") (simp_all add: pose_idle_None)
  from pose_idle_Some [OF a'] Some a' show ?thesis
    unfolding render_farmer_success [OF assms]
    by (simp add: render_still_def sx)
qed

text \<open>
  The empty list of objects. Both scans return the infinities they start from;
  \<open>center_and_scale_model\<close> returns the empty list as it is; and a renderer whose
  import yields no mesh object returns False before any framing: nothing is written, and
  the farmer renderer has placed no camera.
\<close>

theorem empty_input_sentinel:
  "get_model_bounds [] = ([PInf, PInf, PInf], [NInf, NInf, NInf])
   \<and> bound_box_bounds [] = ([PInf, PInf, PInf], [NInf, NInf, NInf])
   \<and> scan_points initial_bounds [] = ([PInf, PInf, PInf], [NInf, NInf, NInf])
   \<and> center_and_scale_model [] = Inr []
   \<and> (path_exists fs (path_join MODELS_DIR (model_name @ ''.glb''))
        \<and> load_glb fs (path_join MODELS_DIR (model_name @ ''.glb'')) = Inr []
      \<longrightarrow> (\<exists>st'. render_portrait fs model_name output_filename st0 = Inr (False, st')
              \<and> meshes st' = [] \<and> written st' = written st0))
   \<and> (path_exists fs (glb farmer) \<and> load_farmer_glb fs (glb farmer) = Inr (arm0, [])
      \<longrightarrow> (\<exists>st'. render_farmer fs farmer st0 = Inr (False, st')
              \<and> meshes st' = [] \<and> armature st' = None \<and> written st' = written st0
              \<and> (\<forall>ob \<in> set (objects st'). otype ob \<noteq> CAMERA)))"
proof (intro conjI impI)
  show "get_model_bounds [] = ([PInf, PInf, PInf], [NInf, NInf, NInf])"
    by (simp add: get_model_bounds_def initial_bounds_eq)
  show "bound_box_bounds [] = ([PInf, PInf, PInf], [NInf, NInf, NInf])"
    by (simp add: bound_box_bounds_def initial_bounds_eq)
  show "scan_points initial_bounds [] = ([PInf, PInf, PInf], [NInf, NInf, NInf])"
    by (simp add: scan_points_def initial_bounds_eq)
  show "center_and_scale_model [] = Inr []"
    by (simp add: center_and_scale_model_def)
next
  assume "path_exists fs (path_join MODELS_DIR (model_name @ ''.glb''))
        \<and> load_glb fs (path_join MODELS_DIR (model_name @ ''.glb'')) = Inr []"
  then show "\<exists>st'. render_portrait fs model_name output_filename st0 = Inr (False, st')
              \<and> meshes st' = [] \<and> written st' = written st0"
    by (simp add: render_portrait_def Let_def print_line_def setup_camera_def
        setup_lighting_def link_object_def clear_scene_def)
next
  assume h: "path_exists fs (glb farmer) \<and> load_farmer_glb fs (glb farmer) = Inr (arm0, [])"
  then have "render_farmer fs farmer st0 =
     Inr (False, print_line (''  ERROR: No mesh objects imported from '' @ glb farmer)
                   (farmer_setup_lighting (clear_scene st0)))"
    by (intro render_farmer_no_meshes) simp_all
  moreover have "\<forall>ob \<in> set (objects (farmer_setup_lighting (clear_scene st0))). otype ob \<noteq> CAMERA"
    using written_lighting(3) [of st0] by auto
  ultimately show "\<exists>st'. render_farmer fs farmer st0 = Inr (False, st')
              \<and> meshes st' = [] \<and> armature st' = None \<and> written st' = written st0
              \<and> (\<forall>ob \<in> set (objects st'). otype ob \<noteq> CAMERA)"
    by (simp add: print_line_def written_lighting written_clear farmer_setup_lighting_def
        link_object_def clear_scene_def)
qed


lemma load_john:
  "path_exists farmer_files (glb (hd FARMERS))"
  "load_farmer_glb farmer_files (glb (hd FARMERS)) = Inr (Some sample_rig, [sample_mesh])"
  by (simp_all add: path_exists_def farmer_files_def FARMERS_def load_farmer_glb_def
      import_scene_def children_def sample_rig_def sample_mesh_def new_object_def)

lemma load_mary:
  "path_exists farmer_files (glb (FARMERS ! 1))"
  "load_farmer_glb farmer_files (glb (FARMERS ! 1)) = Inr (Some sample_rig, [])"
  by (simp_all add: path_exists_def farmer_files_def FARMERS_def load_farmer_glb_def
      import_scene_def children_def sample_rig_def new_object_def path_join_def
      FARMER_MODELS_DIR_def)

lemma load_scarecrow:
  "path_exists farmer_files (glb scarecrow)"
  "load_farmer_glb farmer_files (glb scarecrow) = Inr (None, [sample_mesh])"
  by (simp_all add: path_exists_def farmer_files_def scarecrow_def load_farmer_glb_def
      import_scene_def children_def sample_mesh_def new_object_def path_join_def
      FARMER_MODELS_DIR_def)

lemma sample_points: "concat (map world_points [sample_mesh]) = [(1, 5, -2), (3, 0, 4)]"
  by (simp add: world_points_def sample_mesh_def new_object_def identity_matrix_def)

theorem portrait_focus_witness:
  "path_exists farmer_files (glb (hd FARMERS))
   \<and> load_farmer_glb farmer_files (glb (hd FARMERS)) = Inr (Some sample_rig, [sample_mesh])
   \<and> concat (map world_points [sample_mesh]) = [(1, 5, -2), (3, 0, 4)]
   \<and> (\<exists>st' cam. render_farmer farmer_files (hd FARMERS) empty_scene = Inr (True, st')
         \<and> objects st' = objects (farmer_setup_lighting (clear_scene empty_scene)) @ [cam]
         \<and> location cam = (Fin 0, Fin (-4), Fin 2.5)
         \<and> map scale (meshes st') = [fvec_of (1, 1, 1)]
         \<and> map_option scale (armature st') = Some (fvec_of (1, 1, 1)))"
proof -
  have ne: "[(1, 5, -2), (3, 0, 4)] \<noteq> ([] :: vector list)" by simp
  from portrait_focus [OF load_john sample_points ne, of empty_scene]
  obtain st' cam where "render_farmer farmer_files (hd FARMERS) empty_scene = Inr (True, st')"
    and "objects st' = objects (farmer_setup_lighting (clear_scene empty_scene)) @ [cam]"
    and "location cam = (Fin 0, Fin (-4), Fin 2.5)"
    and "map scale (meshes st') = map scale [sample_mesh]"
    and "map_option scale (armature st') = map_option scale (Some sample_rig)"
    by auto
  then show ?thesis
    using load_john sample_points
    by (simp add: sample_mesh_def sample_rig_def new_object_def)
qed

lemma sample_bounds:
  "get_model_bounds [sample_mesh] = ([Fin 1, Fin 0, Fin (-2)], [Fin 3, Fin 5, Fin 4])"
proof -
  have "get_model_bounds [sample_mesh] = scan_points initial_bounds [(1, 5, -2), (3, 0, 4)]"
    by (simp only: get_model_bounds_scan sample_points)
  then show ?thesis by (simp add: scan_points_Cons fins_def)
qed

theorem farmer_centering_only_x_witness:
  "path_exists farmer_files (glb (hd FARMERS))
   \<and> load_farmer_glb farmer_files (glb (hd FARMERS)) = Inr (Some sample_rig, [sample_mesh])
   \<and> [sample_mesh] \<noteq> []
   \<and> (\<exists>st' a'. render_farmer farmer_files (hd FARMERS) empty_scene = Inr (True, st')
         \<and> armature st' = Some a'
         \<and> fst (location a') = Fin 0
         \<and> snd (location a') = (Fin 1, Fin 0)
         \<and> rotation_euler a' = rotation_euler sample_rig
         \<and> scale a' = scale sample_rig
         \<and> meshes st' = [sample_mesh])
   \<and> path_exists farmer_files (glb scarecrow)
   \<and> load_farmer_glb farmer_files (glb scarecrow) = Inr (None, [sample_mesh])
   \<and> (\<exists>st'. render_farmer farmer_files scarecrow empty_scene = Inr (True, st')
         \<and> armature st' = None
         \<and> length (meshes st') = 1
         \<and> fst (location (meshes st' ! 0)) = Fin (-2)
         \<and> snd (location (meshes st' ! 0)) = snd (location sample_mesh)
         \<and> rotation_euler (meshes st' ! 0) = rotation_euler sample_mesh
         \<and> scale (meshes st' ! 0) = scale sample_mesh)"
proof -
  have ne: "[sample_mesh] \<noteq> []" by simp
  have cx: "center_x_of (get_model_bounds [sample_mesh]) = Fin 2"
    by (simp add: sample_bounds center_x_of_def)
  have a: "\<exists>st' a'. render_farmer farmer_files (hd FARMERS) empty_scene = Inr (True, st')
         \<and> armature st' = Some a'
         \<and> fst (location a') = Fin 0
         \<and> snd (location a') = (Fin 1, Fin 0)
         \<and> rotation_euler a' = rotation_euler sample_rig
         \<and> scale a' = scale sample_rig
         \<and> meshes st' = [sample_mesh]"
    using farmer_centering_only_x [OF load_john ne, of empty_scene, unfolded cx]
    by (auto simp: sample_rig_def new_object_def fvec_of_def fsub_def)
  have b: "\<exists>st'. render_farmer farmer_files scarecrow empty_scene = Inr (True, st')
         \<and> armature st' = None
         \<and> length (meshes st') = 1
         \<and> fst (location (meshes st' ! 0)) = Fin (-2)
         \<and> snd (location (meshes st' ! 0)) = snd (location sample_mesh)
         \<and> rotation_euler (meshes st' ! 0) = rotation_euler sample_mesh
         \<and> scale (meshes st' ! 0) = scale sample_mesh"
    using farmer_centering_only_x [OF load_scarecrow ne, of empty_scene, unfolded cx]
    by (auto simp: sample_mesh_def new_object_def fvec_of_def fsub_def)
  from a b load_john load_scarecrow ne show ?thesis by blast
qed

lemma import_martha:
  "import_scene fbx_files (fbx (snd (CHARACTERS ! 1))) = Inr [martha_mesh]"
  by (simp add: import_scene_def fbx_files_def CHARACTERS_def path_join_def ASSETS_ROOT_def)

theorem missing_elements_skip_witness:
  "import_scene fbx_files (fbx (snd (CHARACTERS ! 1))) = Inr [martha_mesh]
   \<and> otype martha_mesh \<noteq> ARMATURE
   \<and> (\<exists>st'. process_character fbx_files ''mary'' (snd (CHARACTERS ! 1)) empty_blend = Inr st'
         \<and> exported st' = []
         \<and> errors st' = [''  ERROR: Missing Armature or Mesh''])
   \<and> path_exists farmer_files (glb (FARMERS ! 1))
   \<and> load_farmer_glb farmer_files (glb (FARMERS ! 1)) = Inr (Some sample_rig, [])
   \<and> (\<exists>st'. render_farmer farmer_files (FARMERS ! 1) empty_scene = Inr (False, st')
         \<and> written st' = []
         \<and> log st' = [''  ERROR: No mesh objects imported from '' @ glb (FARMERS ! 1)])"
proof -
  have na: "\<forall>ob \<in> set [martha_mesh]. otype ob \<noteq> ARMATURE"
    by (simp add: martha_mesh_def sample_mesh_def new_object_def)
  note inst = missing_elements_skip [where fs = fbx_files and config = "snd (CHARACTERS ! 1)"
      and objs = "[martha_mesh]" and char_key = "''mary''" and st = empty_blend]
  note inst' = missing_elements_skip [where fs = farmer_files and farmer = "FARMERS ! 1"
      and ?arm0.0 = "Some sample_rig" and ?st0.0 = empty_scene]
  from inst import_martha na
  have a: "\<exists>st'. process_character fbx_files ''mary'' (snd (CHARACTERS ! 1)) empty_blend = Inr st'
         \<and> exported st' = []
         \<and> errors st' = [''  ERROR: Missing Armature or Mesh'']"
    by (simp add: empty_blend_def)
  from inst' load_mary
  have b: "\<exists>st'. render_farmer farmer_files (FARMERS ! 1) empty_scene = Inr (False, st')
         \<and> written st' = []
         \<and> log st' = [''  ERROR: No mesh objects imported from '' @ glb (FARMERS ! 1)]"
    by (simp add: empty_scene_def)
  from na have "otype martha_mesh \<noteq> ARMATURE" by simp
  with a b import_martha load_mary show ?thesis by blast
qed

lemma load_cow_mesh_less:
  "path_exists mesh_less_files (path_join MODELS_DIR (''cow'' @ ''.glb''))"
  "load_glb mesh_less_files (path_join MODELS_DIR (''cow'' @ ''.glb'')) = Inr []"
  by (simp_all add: path_exists_def mesh_less_files_def load_glb_def import_scene_def)

theorem empty_input_sentinel_witness:
  "path_exists mesh_less_files (path_join MODELS_DIR (''cow'' @ ''.glb''))
   \<and> load_glb mesh_less_files (path_join MODELS_DIR (''cow'' @ ''.glb'')) = Inr []
   \<and> (\<exists>st'. render_portrait mesh_less_files ''cow'' ''cow_portrait.png'' empty_scene
                = Inr (False, st')
         \<and> meshes st' = [] \<and> written st' = [])
   \<and> path_exists farmer_files (glb (FARMERS ! 1))
   \<and> load_farmer_glb farmer_files (glb (FARMERS ! 1)) = Inr (Some sample_rig, [])
   \<and> (\<exists>st'. render_farmer farmer_files (FARMERS ! 1) empty_scene = Inr (False, st')
         \<and> meshes st' = [] \<and> armature st' = None \<and> written st' = []
         \<and> (\<forall>ob \<in> set (objects st'). otype ob \<noteq> CAMERA))"
proof -
  note inst = empty_input_sentinel [where fs = mesh_less_files and model_name = "''cow''"
      and output_filename = "''cow_portrait.png''" and ?st0.0 = empty_scene]
  note inst' = empty_input_sentinel [where fs = farmer_files and farmer = "FARMERS ! 1"
      and ?arm0.0 = "Some sample_rig" and ?st0.0 = empty_scene]
  from inst load_cow_mesh_less
  have a: "\<exists>st'. render_portrait mesh_less_files ''cow'' ''cow_portrait.png'' empty_scene
                = Inr (False, st')
         \<and> meshes st' = [] \<and> written st' = []"
    by (simp add: empty_scene_def)
  from inst' load_mary
  have b: "\<exists>st'. render_farmer farmer_files (FARMERS ! 1) empty_scene = Inr (False, st')
         \<and> meshes st' = [] \<and> armature st' = None \<and> written st' = []
         \<and> (\<forall>ob \<in> set (objects st'). otype ob \<noteq> CAMERA)"
    by (simp add: empty_scene_def)
  from a b load_cow_mesh_less load_mary show ?thesis by blast
qed

section \<open>Properties of the batch runs and of the export scripts\<close>

lemma load_ghost:
  "path_exists farmer_files (glb ghost)"
  "load_farmer_glb farmer_files (glb ghost) = Inr (None, [ghost_mesh])"
  by (simp_all add: path_exists_def farmer_files_def ghost_def load_farmer_glb_def
      import_scene_def children_def ghost_mesh_def new_object_def path_join_def
      FARMER_MODELS_DIR_def)

lemma ghost_bounds:
  "concat (map world_points [ghost_mesh]) = []"
  "get_model_bounds [ghost_mesh] = ([PInf, PInf, PInf], [NInf, NInf, NInf])"
proof -
  show pts: "concat (map world_points [ghost_mesh]) = []"
    by (simp add: world_points_def ghost_mesh_def new_object_def)
  show "get_model_bounds [ghost_mesh] = ([PInf, PInf, PInf], [NInf, NInf, NInf])"
    unfolding get_model_bounds_scan pts by (simp add: scan_points_def initial_bounds_eq)
qed

text \<open>
  Claim C2, at the input where the code departs from it. The ghost's file imports one
  mesh object whose evaluated mesh has no vertex: the list of objects is not empty, the
  sequence of points is, and \<open>get_model_bounds\<close> returns the infinities it starts
  from. \<open>render_farmer\<close> tests the list of meshes only: it goes on to the framing
  with these bounds, places the camera at a height that is not a number, moves the mesh
  to an x that is not a number, writes the image and returns True.
\<close>

theorem vertexless_mesh_framed:
  "path_exists farmer_files (glb ghost)
   \<and> load_farmer_glb farmer_files (glb ghost) = Inr (None, [ghost_mesh])
   \<and> concat (map world_points [ghost_mesh]) = []
   \<and> get_model_bounds [ghost_mesh] = ([PInf, PInf, PInf], [NInf, NInf, NInf])
   \<and> map_sum id fst (render_farmer farmer_files ghost empty_scene) = Inr True
   \<and> map_sum id (written \<circ> snd) (render_farmer farmer_files ghost empty_scene)
       = Inr [path_join OUTPUT_DIR ''ghost_portrait.png'']
   \<and> map_sum id (map location \<circ> meshes \<circ> snd) (render_farmer farmer_files ghost empty_scene)
       = Inr [(NaN, Fin 0, Fin 0)]
   \<and> map_sum id (map location \<circ> objects \<circ> snd) (render_farmer farmer_files ghost empty_scene)
       = Inr [fvec_of (1.5, -3, 2.5), fvec_of (-1.5, -2.5, 1.5), fvec_of (0, 3, 2.5),
              (Fin 0, Fin (-4), NaN)]"
proof -
  have ne: "[ghost_mesh] \<noteq> []" by simp
  have cx: "center_x_of (get_model_bounds [ghost_mesh]) = NaN"
    by (simp add: ghost_bounds center_x_of_def)
  have cz: "portrait_center_z_of (get_model_bounds [ghost_mesh]) = NaN"
    by (simp add: ghost_bounds portrait_center_z_of_def fsub_def signed_inf_def)
  have run: "map_sum id fst (render_farmer farmer_files ghost empty_scene) = Inr True
   \<and> map_sum id (written \<circ> snd) (render_farmer farmer_files ghost empty_scene)
       = Inr [path_join OUTPUT_DIR ''ghost_portrait.png'']
   \<and> map_sum id (map location \<circ> meshes \<circ> snd) (render_farmer farmer_files ghost empty_scene)
       = Inr [(NaN, Fin 0, Fin 0)]
   \<and> map_sum id (map location \<circ> objects \<circ> snd) (render_farmer farmer_files ghost empty_scene)
       = Inr [fvec_of (1.5, -3, 2.5), fvec_of (-1.5, -2.5, 1.5), fvec_of (0, 3, 2.5),
              (Fin 0, Fin (-4), NaN)]"
    unfolding render_farmer_success [OF load_ghost ne] cx cz
    by (simp add: pose_idle_def render_still_def farmer_setup_camera_def
        farmer_setup_lighting_def link_object_def clear_scene_def empty_scene_def placed_def
        new_object_def ghost_mesh_def ghost_def fvec_of_def fsub_def)
  from load_ghost ghost_bounds run show ?thesis by (intro conjI) simp_all
qed

section \<open>Properties of the batch run and of the export scripts\<close>
















lemma import_animation_step:
  "\<exists>st'. import_animation fs (arm, st) clip
           = (arm\<lparr>nla_tracks := nla_tracks arm @ clip_tracks fs clip\<rparr>, st')
     \<and> errors st' = errors st @ clip_errors fs (snd clip)
     \<and> exported st' = exported st"
  by (cases clip)
     (auto simp: import_animation_def clip_tracks_def clip_action_def clip_errors_def
       log_error_def Let_def split: sum.splits list.splits option.splits)

lemma foldl_import_animation:
  "\<exists>st'. foldl (import_animation fs) (arm, st) clips
           = (arm\<lparr>nla_tracks := nla_tracks arm @ concat (map (clip_tracks fs) clips)\<rparr>, st')
     \<and> errors st' = errors st @ concat (map (\<lambda>(n, p). clip_errors fs p) clips)
     \<and> exported st' = exported st"
proof (induction clips arbitrary: arm st)
  case Nil
  show ?case by simp
next
  case (Cons c clips)
  from import_animation_step [of fs arm st c]
  obtain st1 where s1: "import_animation fs (arm, st) c
        = (arm\<lparr>nla_tracks := nla_tracks arm @ clip_tracks fs c\<rparr>, st1)"
    and e1: "errors st1 = errors st @ clip_errors fs (snd c)"
    and x1: "exported st1 = exported st"
    by blast
  from Cons.IH [of "arm\<lparr>nla_tracks := nla_tracks arm @ clip_tracks fs c\<rparr>" st1]
  obtain st' where "foldl (import_animation fs)
        (arm\<lparr>nla_tracks := nla_tracks arm @ clip_tracks fs c\<rparr>, st1) clips
        = ((arm\<lparr>nla_tracks := nla_tracks arm @ clip_tracks fs c\<rparr>)
             \<lparr>nla_tracks := nla_tracks (arm\<lparr>nla_tracks := nla_tracks arm @ clip_tracks fs c\<rparr>)
                              @ concat (map (clip_tracks fs) clips)\<rparr>, st')"
    and "errors st' = errors st1 @ concat (map (\<lambda>(n, p). clip_errors fs p) clips)"
    and "exported st' = exported st1"
    by blast
  with s1 e1 x1 show ?case by (cases c) simp
qed

text \<open>
  Claim C4, as amended. For a character whose model imports with an armature and its
  mesh, \<open>process_character\<close> returns normally whatever the clips do: it makes exactly
  one export call, of the armature and the mesh, to the character's file. The armature
  exported carries, in the order of the clips, one NLA track for every clip whose import
  returns and leaves as its first selected object one that carries an action: the track
  and its strip bear the clip's name, the strip starts at the first frame of the action
  and holds the action, renamed after the clip. For every clip whose import step raised
  there is an ERROR line with the text of the exception, and nothing else.
\<close>

theorem clip_failure_isolated:
  assumes "import_scene fs (fbx config) = Inr objs"
    and "find_armature_and_mesh (mesh_name config) objs = (Some arm0, Some mesh0)"
  shows "\<exists>st'. process_character fs char_key config st = Inr st'
     \<and> exported st' = exported st
         @ [\<lparr>export_path = path_join PLAYERS_DIR (char_key @ ''.glb''),
             export_objects =
               [(transform_apply (arm0\<lparr>location := fvec_of (0, 0, 0)\<rparr>))
                  \<lparr>select := True, has_animation_data := True,
                   nla_tracks := nla_tracks arm0
                                 @ concat (map (clip_tracks fs) (animations config))\<rparr>,
                (transform_apply mesh0)\<lparr>select := True\<rparr>]\<rparr>]
     \<and> errors st' = errors st @ concat (map (\<lambda>(n, p). clip_errors fs p) (animations config))"
proof -
  let ?arm2 = "(transform_apply (arm0\<lparr>location := fvec_of (0, 0, 0)\<rparr>))\<lparr>has_animation_data := True\<rparr>"
  from foldl_import_animation [of fs ?arm2 "st\<lparr>data_objects := objs\<rparr>" "animations config"]
  obtain st1 where run: "foldl (import_animation fs) (?arm2, st\<lparr>data_objects := objs\<rparr>)
      (animations config)
        = (?arm2\<lparr>nla_tracks := nla_tracks ?arm2
                     @ concat (map (clip_tracks fs) (animations config))\<rparr>, st1)"
    and e: "errors st1 = errors (st\<lparr>data_objects := objs\<rparr>)
        @ concat (map (\<lambda>(n, p). clip_errors fs p) (animations config))"
    and x: "exported st1 = exported (st\<lparr>data_objects := objs\<rparr>)"
    by blast
  have t2: "nla_tracks ?arm2 = nla_tracks arm0"
    by (simp add: transform_apply_def)
  have pc: "process_character fs char_key config st
      = Inr (export_gltf (path_join PLAYERS_DIR (char_key @ ''.glb''))
               [(?arm2\<lparr>nla_tracks := nla_tracks ?arm2
                     @ concat (map (clip_tracks fs) (animations config))\<rparr>)\<lparr>select := True\<rparr>,
                (transform_apply mesh0)\<lparr>select := True\<rparr>] st1)"
    using assms run by (simp add: process_character_def Let_def)
  show ?thesis
    unfolding pc using e x by (simp add: export_gltf_def t2)
qed

lemma import_george:
  "import_scene fbx_files (fbx (snd (hd CHARACTERS))) = Inr [sample_rig, george_mesh]"
  by (simp add: import_scene_def fbx_files_def CHARACTERS_def)

lemma find_george:
  "find_armature_and_mesh (mesh_name (snd (hd CHARACTERS))) [sample_rig, george_mesh]
     = (Some sample_rig, Some george_mesh)"
  by (simp add: find_armature_and_mesh_def CHARACTERS_def sample_rig_def george_mesh_def
      sample_mesh_def new_object_def)

lemma george_clips:
  "concat (map (clip_tracks fbx_files) (animations (snd (hd CHARACTERS))))
     = [\<lparr>track_name = ''idle'',
         strips = [(''idle'', 1, \<lparr>action_name = ''idle'', frame_start = 1\<rparr>)]\<rparr>]"
  "concat (map (\<lambda>(n, p). clip_errors fbx_files p) (animations (snd (hd CHARACTERS))))
     = [''    - ERROR: '' @ no_such_file]"
  by (simp_all add: CHARACTERS_def clip_tracks_def clip_action_def clip_errors_def
      import_scene_def fbx_files_def path_join_def ASSETS_ROOT_def idle_rig_def
      new_object_def py_int_def)

theorem clip_failure_isolated_witness:
  "import_scene fbx_files (fbx (snd (hd CHARACTERS))) = Inr [sample_rig, george_mesh]
   \<and> find_armature_and_mesh (mesh_name (snd (hd CHARACTERS))) [sample_rig, george_mesh]
       = (Some sample_rig, Some george_mesh)
   \<and> import_scene fbx_files (snd (animations (snd (hd CHARACTERS)) ! 1))
       = Inl (RuntimeError no_such_file)
   \<and> (\<exists>st'. process_character fbx_files ''john'' (snd (hd CHARACTERS)) empty_blend = Inr st'
         \<and> exported st'
             = [\<lparr>export_path = path_join PLAYERS_DIR ''john.glb'',
                 export_objects =
                   [(transform_apply (sample_rig\<lparr>location := fvec_of (0, 0, 0)\<rparr>))
                      \<lparr>select := True, has_animation_data := True,
                       nla_tracks :=
                         [\<lparr>track_name = ''idle'',
                           strips = [(''idle'', 1,
                                      \<lparr>action_name = ''idle'', frame_start = 1\<rparr>)]\<rparr>]\<rparr>,
                    (transform_apply george_mesh)\<lparr>select := True\<rparr>]\<rparr>]
         \<and> errors st' = [''    - ERROR: '' @ no_such_file])"
proof -
  have walk: "import_scene fbx_files (snd (animations (snd (hd CHARACTERS)) ! 1))
       = Inl (RuntimeError no_such_file)"
    by (simp add: CHARACTERS_def import_scene_def fbx_files_def path_join_def ASSETS_ROOT_def)
  have tr: "nla_tracks sample_rig = []" by (simp add: sample_rig_def new_object_def)
  from clip_failure_isolated [OF import_george find_george, of "''john''" empty_blend]
  obtain st' where
    "process_character fbx_files ''john'' (snd (hd CHARACTERS)) empty_blend = Inr st'"
    and "exported st' = exported empty_blend
         @ [\<lparr>export_path = path_join PLAYERS_DIR (''john'' @ ''.glb''),
             export_objects =
               [(transform_apply (sample_rig\<lparr>location := fvec_of (0, 0, 0)\<rparr>))
                  \<lparr>select := True, has_animation_data := True,
                   nla_tracks := nla_tracks sample_rig
                     @ concat (map (clip_tracks fbx_files) (animations (snd (hd CHARACTERS))))\<rparr>,
                (transform_apply george_mesh)\<lparr>select := True\<rparr>]\<rparr>]"
    and "errors st' = errors empty_blend
         @ concat (map (\<lambda>(n, p). clip_errors fbx_files p) (animations (snd (hd CHARACTERS))))"
    by blast
  then have body: "process_character fbx_files ''john'' (snd (hd CHARACTERS)) empty_blend = Inr st'
         \<and> exported st'
             = [\<lparr>export_path = path_join PLAYERS_DIR ''john.glb'',
                 export_objects =
                   [(transform_apply (sample_rig\<lparr>location := fvec_of (0, 0, 0)\<rparr>))
                      \<lparr>select := True, has_animation_data := True,
                       nla_tracks :=
                         [\<lparr>track_name = ''idle'',
                           strips = [(''idle'', 1,
                                      \<lparr>action_name = ''idle'', frame_start = 1\<rparr>)]\<rparr>]\<rparr>,
                    (transform_apply george_mesh)\<lparr>select := True\<rparr>]\<rparr>]
         \<and> errors st' = [''    - ERROR: '' @ no_such_file]"
    unfolding george_clips tr
    by (simp add: empty_blend_def)
  then have ex: "\<exists>st'. process_character fbx_files ''john'' (snd (hd CHARACTERS)) empty_blend = Inr st'
         \<and> exported st'
             = [\<lparr>export_path = path_join PLAYERS_DIR ''john.glb'',
                 export_objects =
                   [(transform_apply (sample_rig\<lparr>location := fvec_of (0, 0, 0)\<rparr>))
                      \<lparr>select := True, has_animation_data := True,
                       nla_tracks :=
                         [\<lparr>track_name = ''idle'',
                           strips = [(''idle'', 1,
                                      \<lparr>action_name = ''idle'', frame_start = 1\<rparr>)]\<rparr>]\<rparr>,
                    (transform_apply george_mesh)\<lparr>select := True\<rparr>]\<rparr>]
         \<and> errors st' = [''    - ERROR: '' @ no_such_file]"
    by (intro exI)
  show ?thesis
    by (intro conjI) (rule import_george, rule find_george, rule walk, rule ex)
qed

lemma import_george_prop:
  "import_scene prop_files (fbx (snd (hd CHARACTERS))) = Inr [sample_rig, george_mesh]"
  by (simp add: import_scene_def prop_files_def fbx_files_def CHARACTERS_def path_join_def
      ASSETS_ROOT_def)

lemma prop_clips:
  "concat (map (clip_tracks prop_files) (animations (snd (hd CHARACTERS))))
     = [\<lparr>track_name = ''idle'',
         strips = [(''idle'', 1, \<lparr>action_name = ''idle'', frame_start = 1\<rparr>)]\<rparr>]"
  "concat (map (\<lambda>(n, p). clip_errors prop_files p) (animations (snd (hd CHARACTERS)))) = []"
  by (simp_all add: CHARACTERS_def clip_tracks_def clip_action_def clip_errors_def
      import_scene_def prop_files_def fbx_files_def path_join_def ASSETS_ROOT_def idle_rig_def
      walk_prop_def walk_rig_def new_object_def py_int_def)

text \<open>
  The claim as first stated (the export includes every clip whose import succeeded) fails
  where the import of the walk clip returns without an exception and leaves a prop
  selected before the animated armature: the armature exported has the idle track only,
  and no ERROR line is printed.
\<close>

theorem clip_failure_isolated_counterexample:
  "import_scene prop_files (snd (animations (snd (hd CHARACTERS)) ! 1))
     = Inr [walk_prop, walk_rig]
   \<and> action walk_rig
       = Some \<lparr>action_name = ''Armature.002|mixamo.com|Layer0'', frame_start = 1\<rparr>
   \<and> map_sum id exported
        (process_character prop_files ''john'' (snd (hd CHARACTERS)) empty_blend)
       = Inr [\<lparr>export_path = path_join PLAYERS_DIR ''john.glb'',
               export_objects =
                 [(transform_apply (sample_rig\<lparr>location := fvec_of (0, 0, 0)\<rparr>))
                    \<lparr>select := True, has_animation_data := True,
                     nla_tracks :=
                       [\<lparr>track_name = ''idle'',
                         strips = [(''idle'', 1,
                                    \<lparr>action_name = ''idle'', frame_start = 1\<rparr>)]\<rparr>]\<rparr>,
                  (transform_apply george_mesh)\<lparr>select := True\<rparr>]\<rparr>]
   \<and> map_sum id errors
        (process_character prop_files ''john'' (snd (hd CHARACTERS)) empty_blend)
       = Inr []"
proof -
  have walk: "import_scene prop_files (snd (animations (snd (hd CHARACTERS)) ! 1))
     = Inr [walk_prop, walk_rig]"
    by (simp add: CHARACTERS_def import_scene_def prop_files_def)
  have act: "action walk_rig
       = Some \<lparr>action_name = ''Armature.002|mixamo.com|Layer0'', frame_start = 1\<rparr>"
    by (simp add: walk_rig_def new_object_def)
  have tr: "nla_tracks sample_rig = []" by (simp add: sample_rig_def new_object_def)
  let ?arm2 = "(transform_apply (sample_rig\<lparr>location := fvec_of (0, 0, 0)\<rparr>))\<lparr>has_animation_data := True\<rparr>"
  from foldl_import_animation [of prop_files ?arm2
      "empty_blend\<lparr>data_objects := [sample_rig, george_mesh]\<rparr>"
      "animations (snd (hd CHARACTERS))"]
  obtain st1 where run: "foldl (import_animation prop_files)
      (?arm2, empty_blend\<lparr>data_objects := [sample_rig, george_mesh]\<rparr>)
      (animations (snd (hd CHARACTERS)))
        = (?arm2\<lparr>nla_tracks := nla_tracks ?arm2
             @ concat (map (clip_tracks prop_files) (animations (snd (hd CHARACTERS))))\<rparr>, st1)"
    and e: "errors st1 = errors (empty_blend\<lparr>data_objects := [sample_rig, george_mesh]\<rparr>)
        @ concat (map (\<lambda>(n, p). clip_errors prop_files p) (animations (snd (hd CHARACTERS))))"
    and x: "exported st1 = exported (empty_blend\<lparr>data_objects := [sample_rig, george_mesh]\<rparr>)"
    by blast
  have t2: "nla_tracks ?arm2 = []"
    by (simp add: transform_apply_def tr)
  have pc: "process_character prop_files ''john'' (snd (hd CHARACTERS)) empty_blend
      = Inr (export_gltf (path_join PLAYERS_DIR (''john'' @ ''.glb''))
               [(?arm2\<lparr>nla_tracks := nla_tracks ?arm2
                     @ concat (map (clip_tracks prop_files)
                                 (animations (snd (hd CHARACTERS))))\<rparr>)\<lparr>select := True\<rparr>,
                (transform_apply george_mesh)\<lparr>select := True\<rparr>] st1)"
    using import_george_prop find_george run by (simp add: process_character_def Let_def)
  have ex: "map_sum id exported
        (process_character prop_files ''john'' (snd (hd CHARACTERS)) empty_blend)
       = Inr [\<lparr>export_path = path_join PLAYERS_DIR ''john.glb'',
               export_objects =
                 [(transform_apply (sample_rig\<lparr>location := fvec_of (0, 0, 0)\<rparr>))
                    \<lparr>select := True, has_animation_data := True,
                     nla_tracks :=
                       [\<lparr>track_name = ''idle'',
                         strips = [(''idle'', 1,
                                    \<lparr>action_name = ''idle'', frame_start = 1\<rparr>)]\<rparr>]\<rparr>,
                  (transform_apply george_mesh)\<lparr>select := True\<rparr>]\<rparr>]"
    unfolding pc t2 prop_clips using x by (simp add: export_gltf_def empty_blend_def)
  have er: "map_sum id errors
        (process_character prop_files ''john'' (snd (hd CHARACTERS)) empty_blend)
       = Inr []"
    unfolding pc using e by (simp add: export_gltf_def empty_blend_def prop_clips)
  show ?thesis by (intro conjI) (rule walk act ex er)+
qed

lemma blend_import_animation_exported:
  "exported (blend_import_animation fs st clip) = exported st"
  by (cases clip) (simp add: blend_import_animation_def log_error_def split: sum.splits)

lemma foldl_blend_import_animation_exported:
  "exported (foldl (blend_import_animation fs) st clips) = exported st"
  by (induction clips arbitrary: st) (simp_all add: blend_import_animation_exported)

text \<open>
  Claim C9. The module body of \<open>export_farmers_from_blend.py\<close> processes no
  character and leaves the state as it is; the loop body of its \<open>process_character\<close>
  imports the clip and makes no export call; and \<open>process_character\<close>, were it
  called, would return with the list of export calls unchanged.
\<close>

theorem blend_script_exports_nothing:
  "export_farmers_from_blend fs st = Inr ([], st)
   \<and> exported (blend_import_animation fs st clip) = exported st
   \<and> (\<forall>st'. blend_process_character fs char_key config st = Inr st'
          \<longrightarrow> exported st' = exported st)"
proof (intro conjI allI impI)
  show "export_farmers_from_blend fs st = Inr ([], st)"
    by (simp add: export_farmers_from_blend_def)
  show "exported (blend_import_animation fs st clip) = exported st"
    by (rule blend_import_animation_exported)
next
  fix st'
  assume "blend_process_character fs char_key config st = Inr st'"
  then show "exported st' = exported st"
    by (auto simp: blend_process_character_def Let_def log_error_def
        foldl_blend_import_animation_exported
        split: sum.splits option.splits)
qed

theorem blend_script_exports_nothing_witness:
  "(\<exists>st'. blend_process_character blend_files ''john'' (snd (hd BLEND_CHARACTERS)) empty_blend
            = Inr st'
       \<and> exported st' = []
       \<and> idle_rig \<in> set (data_objects st')
       \<and> length (errors st') = 1)
   \<and> export_farmers_from_blend blend_files empty_blend = Inr ([], empty_blend)"
proof -
  have run: "\<exists>st'. blend_process_character blend_files ''john'' (snd (hd BLEND_CHARACTERS))
        empty_blend = Inr st'
      \<and> idle_rig \<in> set (data_objects st') \<and> length (errors st') = 1"
    by (simp add: blend_process_character_def BLEND_CHARACTERS_def import_scene_def
        blend_files_def find_rig_def george_mesh_def george_rig_def sample_mesh_def
        new_object_def Let_def blend_import_animation_def log_error_def empty_blend_def
        path_join_def ASSETS_ROOT_def)
  then obtain st' where st': "blend_process_character blend_files ''john''
        (snd (hd BLEND_CHARACTERS)) empty_blend = Inr st'"
    and rest: "idle_rig \<in> set (data_objects st')" "length (errors st') = 1"
    by blast
  note inst = blend_script_exports_nothing [of blend_files empty_blend "(''idle'', ''Idle.fbx'')"
      "''john''" "snd (hd BLEND_CHARACTERS)"]
  from inst st' have "exported st' = exported empty_blend" by blast
  then have "exported st' = []" by (simp add: empty_blend_def)
  moreover from inst have "export_farmers_from_blend blend_files empty_blend
      = Inr ([], empty_blend)" by blast
  ultimately show ?thesis using st' rest by blast
qed


end
